theory Spec2Isabelle
  imports
    Main
    "HOL-Library.Char_ord"
    "HOL-Library.List_Lexorder"
    "HOL-Library.Multiset"
    "HOL-Library.Sorting_Algorithms"
begin

section \<open>JavaScript values used by the resolver\<close>

text \<open>
  A string is the list of the bytes of its UTF-8 encoding. An optional property
  (\<open>version?: string\<close>) is an \<open>option\<close>, \<open>None\<close> being \<open>undefined\<close>.

  \<open>String.prototype.trim\<close> removes from both ends the code points of WhiteSpace and
  LineTerminator: U+0009 to U+000D, U+0020, U+00A0, U+1680, U+2000 to U+200A, U+2028,
  U+2029, U+202F, U+205F, U+3000 and U+FEFF. \<open>whitespace\<close> lists their encodings,
  in that order. In UTF-8 no encoding is the beginning or the end of another character's
  encoding, so a string begins (ends) with one of these byte sequences exactly when its
  first (last) code point is that white space.
\<close>

definition whitespace :: "string list" where
  "whitespace =
     [[CHR 0x09], [CHR 0x0A], [CHR 0x0B], [CHR 0x0C], [CHR 0x0D], [CHR 0x20],
      [CHR 0xC2, CHR 0xA0], [CHR 0xE1, CHR 0x9A, CHR 0x80],
      [CHR 0xE2, CHR 0x80, CHR 0x80], [CHR 0xE2, CHR 0x80, CHR 0x81],
      [CHR 0xE2, CHR 0x80, CHR 0x82], [CHR 0xE2, CHR 0x80, CHR 0x83],
      [CHR 0xE2, CHR 0x80, CHR 0x84], [CHR 0xE2, CHR 0x80, CHR 0x85],
      [CHR 0xE2, CHR 0x80, CHR 0x86], [CHR 0xE2, CHR 0x80, CHR 0x87],
      [CHR 0xE2, CHR 0x80, CHR 0x88], [CHR 0xE2, CHR 0x80, CHR 0x89],
      [CHR 0xE2, CHR 0x80, CHR 0x8A], [CHR 0xE2, CHR 0x80, CHR 0xA8],
      [CHR 0xE2, CHR 0x80, CHR 0xA9], [CHR 0xE2, CHR 0x80, CHR 0xAF],
      [CHR 0xE2, CHR 0x81, CHR 0x9F], [CHR 0xE3, CHR 0x80, CHR 0x80],
      [CHR 0xEF, CHR 0xBB, CHR 0xBF]]"

text \<open>Removing, as long as there is one, a leading member of \<open>ws\<close>.\<close>

fun strip :: "string list \<Rightarrow> string \<Rightarrow> string" where
  "strip ws [] = []"
| "strip ws (c # cs) =
     (case find (\<lambda>w. take (length w) (c # cs) = w) ws of
        None \<Rightarrow> c # cs
      | Some w \<Rightarrow> strip ws (drop (length w - 1) cs))"

definition js_trim :: "string \<Rightarrow> string" where
  "js_trim s = rev (strip (map rev whitespace) (rev (strip whitespace s)))"

text \<open>
  \<open>String.prototype.toLowerCase\<close> applies the case mapping of the Unicode tables of
  the host. It is a parameter \<open>toLowerCase\<close> of the definitions that call it: the
  resolver only looks the folded name up in two tables.
\<close>

type_synonym case_mapping = "string \<Rightarrow> string"

text \<open>\<open>a || b\<close> on an optional string: \<open>undefined\<close> and \<open>""\<close> are falsy.\<close>

definition js_or :: "string option \<Rightarrow> string \<Rightarrow> string" where
  "js_or a b = (case a of None \<Rightarrow> b | Some s \<Rightarrow> if s = [] then b else s)"

text \<open>A value inside a template literal: \<open>undefined\<close> prints as the word.\<close>

definition js_template :: "string option \<Rightarrow> string" where
  "js_template a = (case a of None \<Rightarrow> ''undefined'' | Some s \<Rightarrow> s)"

fun js_number :: "nat \<Rightarrow> string" where
  "js_number n =
     (if n < 10 then [''0123456789'' ! n]
      else js_number (n div 10) @ [''0123456789'' ! (n mod 10)])"

declare js_number.simps [simp del]

text \<open>
  A property read \<open>table[key]\<close> on an object literal: the key is one of the literal's own
  properties, or it is found on \<open>Object.prototype\<close> (a truthy value without the
  literal's fields), or it is missing (\<open>undefined\<close>).
\<close>

datatype 'a js_property = Own 'a | Inherited | Missing

text \<open>The keys every object literal inherits from \<open>Object.prototype\<close>.\<close>

definition object_prototype_key :: "string \<Rightarrow> bool" where
  "object_prototype_key k \<longleftrightarrow>
     k \<in> set [''constructor'', ''__proto__'', ''hasOwnProperty'', ''isPrototypeOf'',
              ''propertyIsEnumerable'', ''toLocaleString'', ''toString'', ''valueOf'',
              ''__defineGetter__'', ''__defineSetter__'', ''__lookupGetter__'',
              ''__lookupSetter__'']"

section \<open>Data model (src/tools.ts, src/shared.ts)\<close>

record requirement =
  req_name :: string
  req_operator :: string
  req_version :: "string option"
  req_fixed :: bool
  req_original_spec :: string

record resolved_package =
  pkg_name :: string
  pkg_version :: "string option"

record deprecated_package =
  dep_name :: string
  dep_version :: "string option"
  dep_reason :: string
  dep_suggested_alternative :: "string option"

record conflict =
  conflict_packages :: "string list"
  conflict_reason :: string
  conflict_suggested_resolution :: "string option"

record resolution_result =
  success :: bool
  res_resolved_packages :: "resolved_package list option"
  res_deprecated_packages :: "deprecated_package list option"
  res_conflicts :: "conflict list option"
  res_error :: "string option"
  res_warnings :: "string list option"

text \<open>
  What \<open>dependencyResolutionTool\<close> reads of the value \<open>pypiLookupTool.execute\<close>
  returns: \<open>success\<close>, \<open>package?.latest_version\<close> and \<open>error\<close>. The lookup tool
  wraps its whole body in \<open>try/catch\<close> and returns \<open>{success: false, error}\<close> on
  every failure, so a lookup always yields such a value. During one run of the resolver
  the registry (and the cache in front of it) is taken to answer a name the same way each
  time: a lookup is a function of the package name.
\<close>

record pypi_lookup_result =
  lookup_success :: bool
  lookup_latest_version :: "string option"
  lookup_error :: "string option"

type_synonym pypi_lookup = "string \<Rightarrow> pypi_lookup_result"

section \<open>packageDeprecationAnalysisTool (src/tools.ts)\<close>

record known_deprecation =
  kd_deprecated :: bool
  kd_reason :: string
  kd_alternatives :: "string list"

definition deprecatedPackages :: "string \<Rightarrow> known_deprecation js_property" where
  "deprecatedPackages k =
    (if k = ''nose'' then Own \<lparr>kd_deprecated = True,
        kd_reason = ''Nose has been in maintenance mode for several years and is not compatible with Python 3.10+'',
        kd_alternatives = [''pytest'', ''unittest'']\<rparr>
     else if k = ''nose2'' then Own \<lparr>kd_deprecated = True,
        kd_reason = ''Nose2 development has slowed significantly, pytest is the recommended modern testing framework'',
        kd_alternatives = [''pytest'']\<rparr>
     else if k = ''imp'' then Own \<lparr>kd_deprecated = True,
        kd_reason = ''The imp module is deprecated since Python 3.4 and removed in Python 3.12'',
        kd_alternatives = [''importlib'']\<rparr>
     else if k = ''distutils'' then Own \<lparr>kd_deprecated = True,
        kd_reason = ''distutils is deprecated since Python 3.10 and removed in Python 3.12'',
        kd_alternatives = [''setuptools'', ''build'', ''hatchling'']\<rparr>
     else if k = ''optparse'' then Own \<lparr>kd_deprecated = True,
        kd_reason = ''optparse is deprecated since Python 2.7 in favor of argparse'',
        kd_alternatives = [''argparse'', ''click'', ''typer'']\<rparr>
     else if k = ''setuptools'' then Own \<lparr>kd_deprecated = False,
        kd_reason = ''setuptools < 65.0 has various compatibility issues with modern Python'',
        kd_alternatives = [''setuptools>=65.0'', ''build'', ''poetry'', ''hatchling'']\<rparr>
     else if k = ''pkg_resources'' then Own \<lparr>kd_deprecated = True,
        kd_reason = ''pkg_resources is deprecated, use importlib.metadata instead'',
        kd_alternatives = [''importlib.metadata'', ''packaging'']\<rparr>
     else if k = ''2to3'' then Own \<lparr>kd_deprecated = True,
        kd_reason = ''2to3 tool is deprecated as Python 2 end-of-life was reached'',
        kd_alternatives = [''modern Python 3 code'']\<rparr>
     else if object_prototype_key k then Inherited
     else Missing)"

text \<open>
  The fields of the tool's answer that the resolver reads. The tool is called with
  \<open>check_detailed: false\<close>; its \<open>confidence\<close> (a float) is not read by the resolver.
\<close>

record deprecation_check =
  dc_success :: bool
  dc_is_deprecated :: bool
  dc_reason :: "string option"
  dc_alternatives :: "string list option"

definition packageDeprecationAnalysisTool :: "case_mapping \<Rightarrow> string \<Rightarrow> deprecation_check" where
  "packageDeprecationAnalysisTool toLowerCase package_name =
    (let cleanPackageName = toLowerCase (js_trim package_name) in
     case deprecatedPackages cleanPackageName of
       Own knownInfo \<Rightarrow>
         \<lparr>dc_success = True, dc_is_deprecated = kd_deprecated knownInfo,
          dc_reason = Some (kd_reason knownInfo),
          dc_alternatives = Some (kd_alternatives knownInfo)\<rparr>
     | Inherited \<Rightarrow>
         \<lparr>dc_success = True, dc_is_deprecated = False, dc_reason = None,
          dc_alternatives = None\<rparr>
     | Missing \<Rightarrow>
         \<lparr>dc_success = True, dc_is_deprecated = False,
          dc_reason = Some ''Package not in known deprecated packages list'',
          dc_alternatives = Some []\<rparr>)"

section \<open>dependencyResolutionTool (src/tools.ts)\<close>

record builtin_info =
  bi_deprecated :: bool
  bi_reason :: string
  bi_alternatives :: "string list"
  bi_version :: string

definition builtInDeprecated :: "string \<Rightarrow> builtin_info js_property" where
  "builtInDeprecated k =
    (if k = ''imp'' then Own \<lparr>bi_deprecated = True,
        bi_reason = ''The imp module is deprecated since Python 3.4 and removed in Python 3.12'',
        bi_alternatives = [''importlib''], bi_version = ''built-in''\<rparr>
     else if k = ''optparse'' then Own \<lparr>bi_deprecated = True,
        bi_reason = ''optparse is deprecated since Python 2.7 in favor of argparse'',
        bi_alternatives = [''argparse'', ''click'', ''typer''], bi_version = ''built-in''\<rparr>
     else if k = ''distutils'' then Own \<lparr>bi_deprecated = True,
        bi_reason = ''distutils is deprecated since Python 3.10 and removed in Python 3.12'',
        bi_alternatives = [''setuptools'', ''build'', ''hatchling''], bi_version = ''built-in''\<rparr>
     else if object_prototype_key k then Inherited
     else Missing)"

text \<open>\<open>alternatives[0]\<close>: \<open>undefined\<close> on an empty array.\<close>

definition first_alternative :: "string list \<Rightarrow> string option" where
  "first_alternative xs = (case xs of [] \<Rightarrow> None | x # _ \<Rightarrow> Some x)"

text \<open>
  The version chosen after a successful lookup (the \<open>resolvedVersion\<close> variable).
  The outer test is \<open>req.version && req.operator\<close>: both must be non-empty strings.
\<close>

definition resolvedVersion :: "requirement \<Rightarrow> pypi_lookup_result \<Rightarrow> string" where
  "resolvedVersion req packageLookup =
    (let latest = lookup_latest_version packageLookup in
     case req_version req of
       None \<Rightarrow> js_or latest ''unknown''
     | Some v \<Rightarrow>
         if v \<noteq> [] \<and> req_operator req \<noteq> [] then
           if req_operator req = ''=='' \<or> req_fixed req then v
           else if req_operator req = ''>='' \<or> req_operator req = ''>'' then js_or latest v
           else js_or (Some v) (js_or latest ''unknown'')
         else js_or latest ''unknown'')"

record resolver_state =
  resolved_packages :: "resolved_package list"
  deprecated_packages :: "deprecated_package list"
  warnings :: "string list"

definition initial_state :: resolver_state where
  "initial_state = \<lparr>resolved_packages = [], deprecated_packages = [], warnings = []\<rparr>"

text \<open>
  One iteration of the loop over the requirements. \<open>push\<close> appends at the end; each
  \<open>continue\<close> is a branch that returns the state.
\<close>

definition processRequirement ::
  "case_mapping \<Rightarrow> pypi_lookup \<Rightarrow> requirement \<Rightarrow> resolver_state \<Rightarrow> resolver_state" where
  "processRequirement toLowerCase lookup req st =
    (let cleanName = js_trim (req_name req) in
     if cleanName = [] then
       st\<lparr>warnings := warnings st @ [''Empty package name provided: '' @ [CHR 0x27] @ req_name req @ [CHR 0x27]]\<rparr>
     else
       case builtInDeprecated (toLowerCase cleanName) of
         Own builtInInfo \<Rightarrow>
           st\<lparr>resolved_packages := resolved_packages st @
                  [\<lparr>pkg_name = cleanName, pkg_version = Some (bi_version builtInInfo)\<rparr>],
               deprecated_packages := deprecated_packages st @
                  (if bi_deprecated builtInInfo then
                     [\<lparr>dep_name = cleanName, dep_version = Some (bi_version builtInInfo),
                       dep_reason = bi_reason builtInInfo,
                       dep_suggested_alternative = first_alternative (bi_alternatives builtInInfo)\<rparr>]
                   else [])\<rparr>
       | Inherited \<Rightarrow>
           st\<lparr>resolved_packages := resolved_packages st @
                  [\<lparr>pkg_name = cleanName, pkg_version = None\<rparr>]\<rparr>
       | Missing \<Rightarrow>
           (let packageLookup = lookup cleanName in
            if \<not> lookup_success packageLookup then
              st\<lparr>warnings := warnings st @
                [''Could not find package '' @ [CHR 0x27] @ cleanName @ [CHR 0x27] @ '': '' @
                 js_template (lookup_error packageLookup)]\<rparr>
            else
              (let version = resolvedVersion req packageLookup;
                   deprecationCheck = packageDeprecationAnalysisTool toLowerCase cleanName
               in st\<lparr>resolved_packages := resolved_packages st @
                         [\<lparr>pkg_name = cleanName, pkg_version = Some version\<rparr>],
                      deprecated_packages := deprecated_packages st @
                         (if dc_success deprecationCheck \<and> dc_is_deprecated deprecationCheck then
                            [\<lparr>dep_name = cleanName, dep_version = Some version,
                              dep_reason = js_or (dc_reason deprecationCheck) ''Package is deprecated'',
                              dep_suggested_alternative =
                                (case dc_alternatives deprecationCheck of
                                   None \<Rightarrow> None
                                 | Some alts \<Rightarrow> first_alternative alts)\<rparr>]
                          else [])\<rparr>)))"

text \<open>
  The duplicate scan: \<open>packageNames\<close> is a \<open>Set\<close> (membership is string equality),
  \<open>duplicatePackages\<close> grows by \<open>push\<close>.
\<close>

fun scanDuplicates :: "string set \<Rightarrow> resolved_package list \<Rightarrow> string list" where
  "scanDuplicates packageNames [] = []"
| "scanDuplicates packageNames (pkg # rest) =
     (if pkg_name pkg \<in> packageNames then pkg_name pkg # scanDuplicates packageNames rest
      else scanDuplicates (insert (pkg_name pkg) packageNames) rest)"

definition detectConflicts :: "resolved_package list \<Rightarrow> conflict list" where
  "detectConflicts resolved =
    (let duplicatePackages = scanDuplicates {} resolved in
     if duplicatePackages \<noteq> [] then
       [\<lparr>conflict_packages = duplicatePackages,
         conflict_reason = ''Multiple requirements for the same package found'',
         conflict_suggested_resolution =
           Some ''Review and consolidate duplicate package requirements''\<rparr>]
     else [])"

text \<open>
  The occurrences of a name after its first one, in order: what the scan is to collect
  from the names of the resolved packages.
\<close>

definition repeated_occurrences :: "string list \<Rightarrow> string list" where
  "repeated_occurrences names =
     [names ! i. i \<leftarrow> [0..<length names], names ! i \<in> set (take i names)]"

text \<open>\<open>xs.length > 0 ? xs : undefined\<close>\<close>

definition nonempty_or_undefined :: "'a list \<Rightarrow> 'a list option" where
  "nonempty_or_undefined xs = (if xs \<noteq> [] then Some xs else None)"

text \<open>
  The whole \<open>execute\<close>. Nothing in its body raises (the two tools it calls return their
  failures as values), so neither the inner nor the outer \<open>catch\<close> is a branch here.
  \<open>processing_time_ms\<close> (a clock difference) is left out of the result.
\<close>

definition dependencyResolutionTool ::
  "case_mapping \<Rightarrow> pypi_lookup \<Rightarrow> requirement list \<Rightarrow> resolution_result" where
  "dependencyResolutionTool toLowerCase lookup requirements =
    (if requirements = [] then
       \<lparr>success = False, res_resolved_packages = None, res_deprecated_packages = None,
        res_conflicts = None, res_error = Some ''No requirements provided'',
        res_warnings = None\<rparr>
     else
       (let st = fold (processRequirement toLowerCase lookup) requirements initial_state;
            conflicts = detectConflicts (resolved_packages st);
            hasSignificantIssues = (conflicts \<noteq> []);
            hasUsefulResults = (resolved_packages st \<noteq> [] \<or> deprecated_packages st \<noteq> []);
            ok = (\<not> hasSignificantIssues \<and> hasUsefulResults)
        in \<lparr>success = ok,
            res_resolved_packages = Some (resolved_packages st),
            res_deprecated_packages = nonempty_or_undefined (deprecated_packages st),
            res_conflicts = nonempty_or_undefined conflicts,
            res_error =
              (if \<not> ok \<and> hasSignificantIssues then
                 Some (''Found '' @ js_number (length conflicts) @ '' conflicts'')
               else if \<not> ok \<and> \<not> hasUsefulResults then Some ''No packages could be resolved''
               else None),
            res_warnings = nonempty_or_undefined (warnings st)\<rparr>))"

text \<open>Reading an optional array the way the callers do (\<open>r.conflicts?.length || 0\<close>).\<close>

definition resolved_of :: "resolution_result \<Rightarrow> resolved_package list" where
  "resolved_of r = (case res_resolved_packages r of None \<Rightarrow> [] | Some ps \<Rightarrow> ps)"

definition deprecated_of :: "resolution_result \<Rightarrow> deprecated_package list" where
  "deprecated_of r = (case res_deprecated_packages r of None \<Rightarrow> [] | Some ps \<Rightarrow> ps)"

definition conflicts_of :: "resolution_result \<Rightarrow> conflict list" where
  "conflicts_of r = (case res_conflicts r of None \<Rightarrow> [] | Some cs \<Rightarrow> cs)"

definition warnings_of :: "resolution_result \<Rightarrow> string list" where
  "warnings_of r = (case res_warnings r of None \<Rightarrow> [] | Some ws \<Rightarrow> ws)"

text \<open>The state after the loop, and what one requirement adds to an empty state.\<close>

definition run_loop :: "case_mapping \<Rightarrow> pypi_lookup \<Rightarrow> requirement list \<Rightarrow> resolver_state" where
  "run_loop toLowerCase lookup requirements =
     fold (processRequirement toLowerCase lookup) requirements initial_state"

definition contribution :: "case_mapping \<Rightarrow> pypi_lookup \<Rightarrow> requirement \<Rightarrow> resolver_state" where
  "contribution toLowerCase lookup req = processRequirement toLowerCase lookup req initial_state"

text \<open>
  A requirement reaches the version policy when its trimmed name is non-empty, is no key
  of the built-in table (own or inherited) and its lookup succeeds.
\<close>

definition reaches_version_policy :: "case_mapping \<Rightarrow> pypi_lookup \<Rightarrow> requirement \<Rightarrow> bool" where
  "reaches_version_policy toLowerCase lookup req \<longleftrightarrow>
     js_trim (req_name req) \<noteq> [] \<and>
     builtInDeprecated (toLowerCase (js_trim (req_name req))) = Missing \<and>
     lookup_success (lookup (js_trim (req_name req)))"

text \<open>A requirement is pushed to \<open>resolved_packages\<close> on three of the loop's paths.\<close>

definition is_resolved :: "case_mapping \<Rightarrow> pypi_lookup \<Rightarrow> requirement \<Rightarrow> bool" where
  "is_resolved toLowerCase lookup req \<longleftrightarrow>
     js_trim (req_name req) \<noteq> [] \<and>
     (builtInDeprecated (toLowerCase (js_trim (req_name req))) \<noteq> Missing \<or>
      lookup_success (lookup (js_trim (req_name req))))"

section \<open>requirementsGeneratorTool (src/tools.ts)\<close>

record sourced_package =
  sp_name :: string
  sp_version :: "string option"
  sp_source :: string

definition newline :: char where
  "newline = CHR 0x0A"

text \<open>
  \<open>new Date().toISOString()\<close> is the parameter \<open>now\<close>. \<open>localeCompare\<close> is the
  host's collation, a consistent three-way comparison of strings: a parameter of type
  \<open>string comparator\<close>. \<open>Array.prototype.sort\<close> is stable; with a consistent
  comparison its result is the sorted permutation that keeps equal-comparing elements in
  input order, which \<open>sort\<close> computes.
\<close>

definition manifest_header :: "string \<Rightarrow> nat \<Rightarrow> string" where
  "manifest_header now n =
     ''# Python Requirements File'' @ [newline] @
     ''# Generated on: '' @ now @ [newline] @
     ''# Total packages: '' @ js_number n @ [newline] @
     ''#'' @ [newline] @
     ''# Install with: pip install -r requirements.txt'' @ [newline] @
     ''#'' @ [newline, newline]"

definition package_line :: "bool \<Rightarrow> bool \<Rightarrow> sourced_package \<Rightarrow> string" where
  "package_line include_comments pin_versions pkg =
     sp_name pkg @ (if pin_versions then ''=='' else ''>='') @ js_template (sp_version pkg) @
     (if include_comments \<and> sp_source pkg \<noteq> [] \<and> sp_source pkg \<noteq> ''pypi''
      then ''  # '' @ sp_source pkg else []) @
     [newline]"

definition sortedPackages :: "string comparator \<Rightarrow> sourced_package list \<Rightarrow> sourced_package list" where
  "sortedPackages localeCompare resolved = sort (key sp_name localeCompare) resolved"

definition requirementsGeneratorTool ::
  "string comparator \<Rightarrow> string \<Rightarrow> sourced_package list \<Rightarrow> bool \<Rightarrow> bool \<Rightarrow> string" where
  "requirementsGeneratorTool localeCompare now resolved include_comments pin_versions =
     (if include_comments then manifest_header now (length resolved) else []) @
     concat (map (package_line include_comments pin_versions)
               (sortedPackages localeCompare resolved)) @
     (if include_comments \<and> resolved \<noteq> []
      then [newline] @ ''# End of requirements'' @ [newline] else [])"



section \<open>The request schema (src/shared.ts)\<close>

text \<open>
  A request body whose properties have the right JSON types; a missing property is
  \<open>None\<close>. \<open>parse\<close> returns \<open>None\<close> where zod throws a \<open>ZodError\<close>.
\<close>

record raw_constraint =
  raw_name :: "string option"
  raw_operator :: "string option"
  raw_version :: "string option"
  raw_fixed :: "bool option"
  raw_original_spec :: "string option"

record raw_request =
  raw_requirements :: "raw_constraint list option"
  raw_python_version :: "string option"
  raw_allow_prereleases :: "bool option"
  raw_prefer_stable :: "bool option"
  raw_exclude_deprecated :: "bool option"
  raw_suggest_alternatives :: "bool option"

record resolution_request =
  rq_requirements :: "requirement list"
  rq_python_version :: string
  rq_allow_prereleases :: bool
  rq_prefer_stable :: bool
  rq_exclude_deprecated :: bool
  rq_suggest_alternatives :: bool

definition operator_enum :: "string list" where
  "operator_enum = [''=='', ''>='', ''>'', ''<='', ''<'', ''!='', ''~='', ''==='', []]"

definition with_default :: "'a \<Rightarrow> 'a option \<Rightarrow> 'a" where
  "with_default d v = (case v of None \<Rightarrow> d | Some x \<Rightarrow> x)"

definition DependencyConstraintSchema_parse :: "raw_constraint \<Rightarrow> requirement option" where
  "DependencyConstraintSchema_parse c =
    (case (raw_name c, raw_original_spec c) of
       (Some n, Some spec) \<Rightarrow>
         if with_default [] (raw_operator c) \<in> set operator_enum then
           Some \<lparr>req_name = n, req_operator = with_default [] (raw_operator c),
                 req_version = raw_version c, req_fixed = with_default False (raw_fixed c),
                 req_original_spec = spec\<rparr>
         else None
     | _ \<Rightarrow> None)"

fun parse_all :: "raw_constraint list \<Rightarrow> requirement list option" where
  "parse_all [] = Some []"
| "parse_all (c # cs) =
     (case DependencyConstraintSchema_parse c of
        None \<Rightarrow> None
      | Some r \<Rightarrow> (case parse_all cs of None \<Rightarrow> None | Some rs \<Rightarrow> Some (r # rs)))"

definition ResolutionRequestSchema_parse :: "raw_request \<Rightarrow> resolution_request option" where
  "ResolutionRequestSchema_parse body =
    (case raw_requirements body of
       None \<Rightarrow> None
     | Some cs \<Rightarrow>
         (case parse_all cs of
            None \<Rightarrow> None
          | Some rs \<Rightarrow>
              Some \<lparr>rq_requirements = rs,
                    rq_python_version = with_default ''3.9'' (raw_python_version body),
                    rq_allow_prereleases = with_default False (raw_allow_prereleases body),
                    rq_prefer_stable = with_default True (raw_prefer_stable body),
                    rq_exclude_deprecated = with_default True (raw_exclude_deprecated body),
                    rq_suggest_alternatives = with_default True (raw_suggest_alternatives body)\<rparr>))"

section \<open>The orchestrator (DependencyResolverAgent)\<close>

subsection \<open>Research results\<close>

text \<open>
  Of a \<open>PackageResearchResult\<close> the resolver reads whether it is the \<open>{error}\<close> shape
  and its \<open>deprecation_analysis\<close> (\<open>null\<close> is \<open>None\<close>). The research map is a
  \<open>Map\<close> from the requirement's name.
\<close>

record deprecation_analysis =
  da_is_deprecated :: bool
  da_evidence :: "string list"
  da_alternatives :: "string list"

datatype research_result =
    ResearchError string
  | Research "deprecation_analysis option"

type_synonym research_map = "string \<rightharpoonup> research_result"

fun js_join :: "string \<Rightarrow> string list \<Rightarrow> string" where
  "js_join sep [] = []"
| "js_join sep [x] = x"
| "js_join sep (x # y # ys) = x @ sep @ js_join sep (y # ys)"

subsection \<open>resolveDependencies\<close>

definition enhanceDeprecated :: "research_map \<Rightarrow> resolved_package list \<Rightarrow> deprecated_package list" where
  "enhanceDeprecated researchResults pkgs =
     concat (map (\<lambda>pkg.
        case researchResults (pkg_name pkg) of
          Some (Research (Some analysis)) \<Rightarrow>
            if da_is_deprecated analysis then
              [\<lparr>dep_name = pkg_name pkg, dep_version = pkg_version pkg,
                dep_reason = js_join ''; '' (da_evidence analysis),
                dep_suggested_alternative = first_alternative (da_alternatives analysis)\<rparr>]
            else []
        | _ \<Rightarrow> []) pkgs)"

text \<open>
  \<open>execute\<close> is \<open>tools.dependency_resolution.execute\<close>: \<open>Inr\<close> its return value,
  \<open>Inl\<close> the message of an error it raises, which the \<open>catch\<close> block turns into a
  failed result.
\<close>

type_synonym resolution_tool = "requirement list \<Rightarrow> string + resolution_result"

definition failed_result :: "string \<Rightarrow> resolution_result" where
  "failed_result message =
     \<lparr>success = False, res_resolved_packages = None, res_deprecated_packages = None,
      res_conflicts = None, res_error = Some message, res_warnings = None\<rparr>"

definition resolveDependencies ::
  "resolution_tool \<Rightarrow> resolution_request \<Rightarrow> research_map \<Rightarrow> resolution_result" where
  "resolveDependencies execute request researchResults =
    (case execute (rq_requirements request) of
       Inl message \<Rightarrow> failed_result message
     | Inr resolutionResult \<Rightarrow>
         (case res_resolved_packages resolutionResult of
            None \<Rightarrow> resolutionResult
          | Some pkgs \<Rightarrow>
              (let deprecatedPackages = enhanceDeprecated researchResults pkgs in
               if deprecatedPackages \<noteq> [] then
                 resolutionResult\<lparr>res_deprecated_packages := Some deprecatedPackages\<rparr>
               else resolutionResult)))"

text \<open>The tool of this repository, which returns its failures as values.\<close>

definition tools_dependency_resolution :: "case_mapping \<Rightarrow> pypi_lookup \<Rightarrow> resolution_tool" where
  "tools_dependency_resolution toLowerCase lookup requirements =
     Inr (dependencyResolutionTool toLowerCase lookup requirements)"

subsection \<open>generateReport\<close>

text \<open>
  The report without its two presentation fields (\<open>detailed_report\<close>, the markdown
  text, and \<open>package_analysis\<close>), which no status check reads; they are built by
  string concatenation over the result and the research map and raise nothing.
\<close>

record report_metadata =
  md_python_version :: string
  md_total_packages :: nat
  md_deprecated_count :: nat
  md_conflict_count :: nat
  md_processing_time_ms :: int

record dependency_report =
  rep_id :: string
  rep_created_at :: string
  rep_request :: resolution_request
  rep_result :: resolution_result
  rep_requirements_txt :: string
  rep_metadata :: report_metadata

text \<open>
  What a pipeline run gets from outside: the outcome of the research phase
  (\<open>Inl\<close>: the message of an error it raised), the resolution tool, the collation, the
  clock (read once per run: an ISO timestamp and milliseconds), and for each of the two
  writes to \<open>REPORTS_STORAGE\<close> whether \<open>put\<close> succeeds or raises
  \<open>env_put_error\<close>; a \<open>put\<close> that raises leaves the store as it was.
\<close>

record pipeline_env =
  env_research :: "string list \<Rightarrow> string + research_map"
  env_execute :: resolution_tool
  env_localeCompare :: "string comparator"
  env_now :: string
  env_now_ms :: int
  env_report_put_ok :: bool
  env_error_put_ok :: bool
  env_put_error :: string

definition packagesWithSource :: "resolved_package list \<Rightarrow> sourced_package list" where
  "packagesWithSource pkgs =
     map (\<lambda>pkg. \<lparr>sp_name = pkg_name pkg, sp_version = pkg_version pkg, sp_source = ''pypi''\<rparr>) pkgs"

definition generateReport ::
  "pipeline_env \<Rightarrow> string \<Rightarrow> resolution_request \<Rightarrow> resolution_result \<Rightarrow> int \<Rightarrow> dependency_report" where
  "generateReport env reportId request resolutionResult startTime =
     \<lparr>rep_id = reportId,
      rep_created_at = env_now env,
      rep_request = request,
      rep_result = resolutionResult,
      rep_requirements_txt =
        (case res_resolved_packages resolutionResult of
           None \<Rightarrow> []
         | Some pkgs \<Rightarrow>
             requirementsGeneratorTool (env_localeCompare env) (env_now env)
               (packagesWithSource pkgs) True True),
      rep_metadata =
        \<lparr>md_python_version = rq_python_version request,
         md_total_packages = length (rq_requirements request),
         md_deprecated_count = length (deprecated_of resolutionResult),
         md_conflict_count = length (conflicts_of resolutionResult),
         md_processing_time_ms = env_now_ms env - startTime\<rparr>\<rparr>"

subsection \<open>The job store\<close>

text \<open>
  The three JSON documents written under \<open>report:<id>\<close>: the initial
  \<open>{id, status: "processing", created_at, request}\<close>, the error report
  \<open>{id, status: "failed", error, created_at}\<close>, and the report, which has a
  \<open>result\<close> and neither \<open>status\<close> nor \<open>error\<close>.
\<close>

datatype stored =
    ProcessingStatus string string resolution_request
  | ErrorReport string string string
  | StoredReport dependency_report

type_synonym storage = "string \<rightharpoonup> stored"

definition generateReportKey :: "string \<Rightarrow> string" where
  "generateReportKey reportId = ''report:'' @ reportId"

fun data_status :: "stored \<Rightarrow> string option" where
  "data_status (ProcessingStatus _ _ _) = Some ''processing''"
| "data_status (ErrorReport _ _ _) = Some ''failed''"
| "data_status (StoredReport _) = None"

fun data_error :: "stored \<Rightarrow> string option" where
  "data_error (ErrorReport _ message _) = Some message"
| "data_error _ = None"

fun data_result :: "stored \<Rightarrow> resolution_result option" where
  "data_result (StoredReport report) = Some (rep_result report)"
| "data_result _ = None"

fun data_created_at :: "stored \<Rightarrow> string" where
  "data_created_at (ProcessingStatus _ created _) = created"
| "data_created_at (ErrorReport _ _ created) = created"
| "data_created_at (StoredReport report) = rep_created_at report"

fun data_request :: "stored \<Rightarrow> resolution_request option" where
  "data_request (ProcessingStatus _ _ request) = Some request"
| "data_request (ErrorReport _ _ _) = None"
| "data_request (StoredReport report) = Some (rep_request report)"

subsection \<open>getResolutionStatus\<close>

datatype status_response =
    NotFound
  | Processing string string "resolution_request option"
  | Failed string string string
  | Completed stored
  | RetrieveFailed

text \<open>
  \<open>read_ok\<close> is false when reading the store raises (the \<open>catch\<close> answers 500).
  The three tests come in the source's order; the second is \<open>data.error && !data.result\<close>,
  and an empty \<open>error\<close> string is falsy.
\<close>

definition getResolutionStatus :: "storage \<Rightarrow> bool \<Rightarrow> string \<Rightarrow> status_response" where
  "getResolutionStatus store read_ok reportId =
    (if \<not> read_ok then RetrieveFailed
     else
       case store (generateReportKey reportId) of
         None \<Rightarrow> NotFound
       | Some data \<Rightarrow>
           if data_status data = Some ''processing'' then
             Processing reportId (data_created_at data) (data_request data)
           else
             (case data_error data of
                Some message \<Rightarrow>
                  if message \<noteq> [] \<and> data_result data = None then
                    Failed reportId message (data_created_at data)
                  else Completed data
              | None \<Rightarrow> Completed data))"

subsection \<open>handleResolutionRequest\<close>

text \<open>
  \<open>reportId\<close> is the value of \<open>generateId()\<close> and \<open>now\<close>, \<open>startTime\<close> the clock;
  \<open>put_ok\<close> tells whether the initial write succeeds (its failure is logged and
  ignored). The answer is \<open>ParseFailed\<close> where \<open>parse\<close> throws (\<open>onRequest\<close> answers
  500); otherwise the handler returns the id, and the job it hands to \<open>waitUntil\<close>.
\<close>

datatype submit_response = ParseFailed | Started string

record job =
  job_id :: string
  job_request :: resolution_request
  job_startTime :: int

record submission =
  sub_response :: submit_response
  sub_store :: storage
  sub_launched :: "job option"

definition handleResolutionRequest ::
  "raw_request \<Rightarrow> string \<Rightarrow> string \<Rightarrow> int \<Rightarrow> bool \<Rightarrow> storage \<Rightarrow> submission" where
  "handleResolutionRequest body reportId now startTime put_ok store =
    (case ResolutionRequestSchema_parse body of
       None \<Rightarrow> \<lparr>sub_response = ParseFailed, sub_store = store, sub_launched = None\<rparr>
     | Some resolutionRequest \<Rightarrow>
         \<lparr>sub_response = Started reportId,
          sub_store =
            (if put_ok then
               store(generateReportKey reportId \<mapsto> ProcessingStatus reportId now resolutionRequest)
             else store),
          sub_launched =
            Some \<lparr>job_id = reportId, job_request = resolutionRequest, job_startTime = startTime\<rparr>\<rparr>)"

subsection \<open>processResolution\<close>

definition storeReport :: "pipeline_env \<Rightarrow> string \<Rightarrow> dependency_report \<Rightarrow> storage \<Rightarrow> string + storage" where
  "storeReport env reportId report store =
    (if env_report_put_ok env then Inr (store(generateReportKey reportId \<mapsto> StoredReport report))
     else Inl (env_put_error env))"

definition storeError :: "pipeline_env \<Rightarrow> string \<Rightarrow> string \<Rightarrow> storage \<Rightarrow> storage" where
  "storeError env reportId message store =
    (if env_error_put_ok env then
       store(generateReportKey reportId \<mapsto> ErrorReport reportId message (env_now env))
     else store)"

text \<open>
  The \<open>try\<close> block: research, resolution, report generation and the write, in sequence.
  \<open>Inl\<close> is the message of the error that leaves the block.
\<close>

definition pipeline :: "pipeline_env \<Rightarrow> job \<Rightarrow> storage \<Rightarrow> string + storage" where
  "pipeline env j store =
    (case env_research env (map req_name (rq_requirements (job_request j))) of
       Inl message \<Rightarrow> Inl message
     | Inr packageResearchResults \<Rightarrow>
         (let resolutionResult =
                resolveDependencies (env_execute env) (job_request j) packageResearchResults;
              report =
                generateReport env (job_id j) (job_request j) resolutionResult (job_startTime j)
          in storeReport env (job_id j) report store))"

definition processResolution :: "pipeline_env \<Rightarrow> job \<Rightarrow> storage \<Rightarrow> storage" where
  "processResolution env j store =
    (case pipeline env j store of
       Inr store' \<Rightarrow> store'
     | Inl message \<Rightarrow> storeError env (job_id j) message store)"

subsection \<open>The life of the store\<close>

text \<open>
  The state of the service: the store, the jobs handed to \<open>waitUntil\<close> whose pipeline has
  not yet run, and the identifiers \<open>generateId()\<close> has returned so far. A step is a
  submission (whose identifier is fresh) or the run of a pending pipeline, each in any
  environment.
\<close>

record service =
  store :: storage
  pending :: "job set"
  issued :: "string set"

definition initial_service :: service where
  "initial_service = \<lparr>store = Map.empty, pending = {}, issued = {}\<rparr>"

definition after_submit :: "service \<Rightarrow> string \<Rightarrow> submission \<Rightarrow> service" where
  "after_submit s reportId sub =
    (case sub_launched sub of
       None \<Rightarrow> s
     | Some j \<Rightarrow>
         \<lparr>store = sub_store sub, pending = insert j (pending s),
          issued = insert reportId (issued s)\<rparr>)"

definition after_run :: "service \<Rightarrow> pipeline_env \<Rightarrow> job \<Rightarrow> service" where
  "after_run s env j =
     \<lparr>store = processResolution env j (store s), pending = pending s - {j}, issued = issued s\<rparr>"

inductive step :: "service \<Rightarrow> service \<Rightarrow> bool" where
  submit:
    "reportId \<notin> issued s \<Longrightarrow>
     step s (after_submit s reportId
               (handleResolutionRequest body reportId now startTime put_ok (store s)))"
| run:
    "j \<in> pending s \<Longrightarrow> step s (after_run s env j)"

definition reachable :: "service \<Rightarrow> bool" where
  "reachable s \<longleftrightarrow> step\<^sup>*\<^sup>* initial_service s"

definition is_terminal :: "status_response \<Rightarrow> bool" where
  "is_terminal r = (case r of Completed _ \<Rightarrow> True | Failed _ _ _ \<Rightarrow> True | _ \<Rightarrow> False)"

definition is_processing :: "status_response \<Rightarrow> bool" where
  "is_processing r = (case r of Processing _ _ _ \<Rightarrow> True | _ \<Rightarrow> False)"

text \<open>
  What holds of every state the service can reach: a document is stored only under an
  identifier that was issued, and the pending jobs have issued, pairwise different
  identifiers.
\<close>

definition store_invariant :: "service \<Rightarrow> bool" where
  "store_invariant s \<longleftrightarrow>
     (\<forall>reportId. generateReportKey reportId \<in> dom (store s) \<longrightarrow> reportId \<in> issued s) \<and>
     (\<forall>j \<in> pending s. job_id j \<in> issued s) \<and>
     (\<forall>j \<in> pending s. \<forall>j' \<in> pending s. job_id j = job_id j' \<longrightarrow> j = j')"

text \<open>A job has a final document: one whose \<open>status\<close> is not \<open>processing\<close>.\<close>

definition settled :: "service \<Rightarrow> string \<Rightarrow> bool" where
  "settled s reportId \<longleftrightarrow>
     reportId \<in> issued s \<and>
     (\<exists>data. store s (generateReportKey reportId) = Some data \<and>
             data_status data \<noteq> Some ''processing'')"

text \<open>The error report of a job is stored and its pipeline is no longer pending.\<close>

definition failure_recorded :: "service \<Rightarrow> string \<Rightarrow> string \<Rightarrow> string \<Rightarrow> bool" where
  "failure_recorded s reportId message created \<longleftrightarrow>
     reportId \<in> issued s \<and>
     store s (generateReportKey reportId) = Some (ErrorReport reportId message created) \<and>
     (\<forall>j \<in> pending s. job_id j \<noteq> reportId)"

section \<open>Scenarios\<close>

text \<open>
  The case mapping on the letters A to Z, which is \<open>toLowerCase\<close> on the names of
  the scenarios; a registry that knows every package but one; and the requirements of the
  test suite (test-production-ready.js) and of the specification's scenarios.
\<close>

definition ascii_toLowerCase :: case_mapping where
  "ascii_toLowerCase s =
     map (\<lambda>c. case map_of (zip ''ABCDEFGHIJKLMNOPQRSTUVWXYZ'' ''abcdefghijklmnopqrstuvwxyz'') c of
                 Some l \<Rightarrow> l
               | None \<Rightarrow> c) s"

definition example_registry :: pypi_lookup where
  "example_registry package_name =
    (if package_name = ''nonexistent-package-xyz'' then
       \<lparr>lookup_success = False, lookup_latest_version = None,
        lookup_error = Some ''not found on PyPI''\<rparr>
     else
       \<lparr>lookup_success = True,
        lookup_latest_version =
          Some (if package_name = ''numpy'' then ''1.24.3''
                else if package_name = ''pandas'' then ''2.0.1''
                else ''5.0''),
        lookup_error = None\<rparr>)"

definition requirement_of :: "string \<Rightarrow> string \<Rightarrow> string option \<Rightarrow> bool \<Rightarrow> requirement" where
  "requirement_of n operator v is_fixed =
     \<lparr>req_name = n, req_operator = operator, req_version = v, req_fixed = is_fixed,
      req_original_spec = n @ operator @ js_or v []\<rparr>"

definition django_minimum :: requirement where
  "django_minimum = requirement_of ''django'' ''>='' (Some ''4.0'') False"

definition django_pinned :: requirement where
  "django_pinned = requirement_of ''django'' ''=='' (Some ''3.2'') True"

definition Django_minimum :: requirement where
  "Django_minimum = requirement_of ''Django'' ''>='' (Some ''4.0'') False"

definition numpy_any :: requirement where
  "numpy_any = requirement_of ''numpy'' [] None False"

definition pandas_minimum :: requirement where
  "pandas_minimum = requirement_of ''pandas'' ''>='' (Some ''1.3.0'') False"

definition numpy_fixed_without_operator :: requirement where
  "numpy_fixed_without_operator = requirement_of ''numpy'' [] (Some ''1.0'') True"

definition requests_maximum :: requirement where
  "requests_maximum = requirement_of ''requests'' ''<='' (Some ''2.0'') False"

definition missing_package :: requirement where
  "missing_package = requirement_of ''nonexistent-package-xyz'' [] None False"

definition missing_pinned :: requirement where
  "missing_pinned = requirement_of ''nonexistent-package-xyz'' ''=='' (Some ''1.0'') True"

definition example_now :: string where
  "example_now = ''2026-01-01T00:00:00.000Z''"

definition sourced :: "string \<Rightarrow> string \<Rightarrow> sourced_package" where
  "sourced n v = \<lparr>sp_name = n, sp_version = Some v, sp_source = ''pypi''\<rparr>"

text \<open>
  As an instance of a collation in the scenarios: the comparison of strings by their
  character codes.
\<close>

definition code_unit_order :: "string comparator" where
  "code_unit_order = default"

text \<open>
  Scenarios of the orchestrator: a request for one package the registry does not know, a
  body with an empty requirement list, an environment in which everything works, one
  whose resolution tool raises, one in which the report cannot be written, and one in
  which no write succeeds.
\<close>

definition example_request :: resolution_request where
  "example_request =
     \<lparr>rq_requirements = [missing_package], rq_python_version = ''3.9'',
      rq_allow_prereleases = False, rq_prefer_stable = True, rq_exclude_deprecated = True,
      rq_suggest_alternatives = True\<rparr>"

definition example_body :: raw_request where
  "example_body =
     \<lparr>raw_requirements =
        Some [\<lparr>raw_name = Some ''nonexistent-package-xyz'', raw_operator = Some [],
               raw_version = None, raw_fixed = None,
               raw_original_spec = Some ''nonexistent-package-xyz''\<rparr>],
      raw_python_version = None, raw_allow_prereleases = None, raw_prefer_stable = None,
      raw_exclude_deprecated = None, raw_suggest_alternatives = None\<rparr>"

definition empty_body :: raw_request where
  "empty_body =
     \<lparr>raw_requirements = Some [], raw_python_version = None, raw_allow_prereleases = None,
      raw_prefer_stable = None, raw_exclude_deprecated = None,
      raw_suggest_alternatives = None\<rparr>"

definition empty_request :: resolution_request where
  "empty_request =
     \<lparr>rq_requirements = [], rq_python_version = ''3.9'',
      rq_allow_prereleases = False, rq_prefer_stable = True, rq_exclude_deprecated = True,
      rq_suggest_alternatives = True\<rparr>"

definition example_research :: research_map where
  "example_research = [''nonexistent-package-xyz'' \<mapsto> Research None]"

definition example_env :: pipeline_env where
  "example_env =
     \<lparr>env_research = (\<lambda>names. Inr example_research),
      env_execute = tools_dependency_resolution ascii_toLowerCase example_registry,
      env_localeCompare = code_unit_order,
      env_now = example_now, env_now_ms = 1500,
      env_report_put_ok = True, env_error_put_ok = True,
      env_put_error = ''R2 unavailable''\<rparr>"

definition raising_tool_env :: pipeline_env where
  "raising_tool_env = example_env\<lparr>env_execute := (\<lambda>requirements. Inl ''tool crashed'')\<rparr>"

definition unwritable_report_env :: pipeline_env where
  "unwritable_report_env = example_env\<lparr>env_report_put_ok := False\<rparr>"

definition outage_env :: pipeline_env where
  "outage_env = example_env\<lparr>env_report_put_ok := False, env_error_put_ok := False\<rparr>"

definition example_job :: job where
  "example_job = \<lparr>job_id = ''job1'', job_request = example_request, job_startTime = 0\<rparr>"

definition example_submitted :: service where
  "example_submitted =
     after_submit initial_service ''job1''
       (handleResolutionRequest example_body ''job1'' example_now 0 True (store initial_service))"

definition unresolved_result :: resolution_result where
  "unresolved_result =
     \<lparr>success = False, res_resolved_packages = Some [], res_deprecated_packages = None,
      res_conflicts = None, res_error = Some ''No packages could be resolved'',
      res_warnings =
        Some [''Could not find package '' @ [CHR 0x27] @ ''nonexistent-package-xyz'' @
              [CHR 0x27] @ '': not found on PyPI'']\<rparr>"

definition empty_job :: job where
  "empty_job = \<lparr>job_id = ''job1'', job_request = empty_request, job_startTime = 0\<rparr>"

definition no_requirements_result :: resolution_result where
  "no_requirements_result =
     \<lparr>success = False, res_resolved_packages = None, res_deprecated_packages = None,
      res_conflicts = None, res_error = Some ''No requirements provided'',
      res_warnings = None\<rparr>"




definition missing_requirements_body :: raw_request where
  "missing_requirements_body = empty_body\<lparr>raw_requirements := None\<rparr>"

section \<open>The resolver's loop\<close>

lemma initial_state_fields:
  "resolved_packages initial_state = []"
  "deprecated_packages initial_state = []"
  "warnings initial_state = []"
  by (simp_all add: initial_state_def)

lemma processRequirement_appends:
  "resolved_packages (processRequirement toLowerCase lookup req st) =
     resolved_packages st @ resolved_packages (contribution toLowerCase lookup req)"
  "deprecated_packages (processRequirement toLowerCase lookup req st) =
     deprecated_packages st @ deprecated_packages (contribution toLowerCase lookup req)"
  "warnings (processRequirement toLowerCase lookup req st) =
     warnings st @ warnings (contribution toLowerCase lookup req)"
  by (simp_all add: processRequirement_def contribution_def initial_state_def Let_def
      split: js_property.splits)

lemma fold_resolved:
  "resolved_packages (fold (processRequirement toLowerCase lookup) reqs st) =
     resolved_packages st @ concat (map (\<lambda>r. resolved_packages (contribution toLowerCase lookup r)) reqs)"
  by (induction reqs arbitrary: st) (simp_all add: processRequirement_appends(1))

lemma fold_deprecated:
  "deprecated_packages (fold (processRequirement toLowerCase lookup) reqs st) =
     deprecated_packages st @ concat (map (\<lambda>r. deprecated_packages (contribution toLowerCase lookup r)) reqs)"
  by (induction reqs arbitrary: st) (simp_all add: processRequirement_appends(2))

lemma fold_warnings:
  "warnings (fold (processRequirement toLowerCase lookup) reqs st) =
     warnings st @ concat (map (\<lambda>r. warnings (contribution toLowerCase lookup r)) reqs)"
  by (induction reqs arbitrary: st) (simp_all add: processRequirement_appends(3))

lemma run_loop_append:
  "resolved_packages (run_loop toLowerCase lookup (xs @ ys)) =
     resolved_packages (run_loop toLowerCase lookup xs) @ resolved_packages (run_loop toLowerCase lookup ys)"
  "deprecated_packages (run_loop toLowerCase lookup (xs @ ys)) =
     deprecated_packages (run_loop toLowerCase lookup xs) @ deprecated_packages (run_loop toLowerCase lookup ys)"
  "warnings (run_loop toLowerCase lookup (xs @ ys)) =
     warnings (run_loop toLowerCase lookup xs) @ warnings (run_loop toLowerCase lookup ys)"
  by (simp_all add: run_loop_def fold_resolved fold_deprecated fold_warnings initial_state_fields)

lemma run_loop_Cons:
  "resolved_packages (run_loop toLowerCase lookup (x # ys)) =
     resolved_packages (contribution toLowerCase lookup x) @ resolved_packages (run_loop toLowerCase lookup ys)"
  "deprecated_packages (run_loop toLowerCase lookup (x # ys)) =
     deprecated_packages (contribution toLowerCase lookup x) @ deprecated_packages (run_loop toLowerCase lookup ys)"
  "warnings (run_loop toLowerCase lookup (x # ys)) =
     warnings (contribution toLowerCase lookup x) @ warnings (run_loop toLowerCase lookup ys)"
  using run_loop_append [of toLowerCase lookup "[x]" ys]
  by (simp_all add: run_loop_def contribution_def)

lemma run_loop_Nil:
  "resolved_packages (run_loop toLowerCase lookup []) = []"
  "deprecated_packages (run_loop toLowerCase lookup []) = []"
  "warnings (run_loop toLowerCase lookup []) = []"
  by (simp_all add: run_loop_def initial_state_fields)

lemma run_loop_middle:
  "resolved_packages (run_loop toLowerCase lookup (before @ req # after)) =
     resolved_packages (run_loop toLowerCase lookup before) @ resolved_packages (contribution toLowerCase lookup req) @
     resolved_packages (run_loop toLowerCase lookup after)"
  "deprecated_packages (run_loop toLowerCase lookup (before @ req # after)) =
     deprecated_packages (run_loop toLowerCase lookup before) @ deprecated_packages (contribution toLowerCase lookup req) @
     deprecated_packages (run_loop toLowerCase lookup after)"
  "warnings (run_loop toLowerCase lookup (before @ req # after)) =
     warnings (run_loop toLowerCase lookup before) @ warnings (contribution toLowerCase lookup req) @
     warnings (run_loop toLowerCase lookup after)"
  by (simp_all add: run_loop_append run_loop_Cons)



lemma contribution_names:
  "map pkg_name (resolved_packages (contribution toLowerCase lookup req)) =
     (if is_resolved toLowerCase lookup req then [js_trim (req_name req)] else [])"
  by (simp add: processRequirement_def contribution_def initial_state_def Let_def is_resolved_def
      split: js_property.splits)

lemma run_loop_names:
  "map pkg_name (resolved_packages (run_loop toLowerCase lookup reqs)) =
     map (\<lambda>q. js_trim (req_name q)) (filter (is_resolved toLowerCase lookup) reqs)"
  by (induction reqs) (simp_all add: run_loop_Nil run_loop_Cons contribution_names)

lemma tool_fields:
  "resolved_of (dependencyResolutionTool toLowerCase lookup reqs) = resolved_packages (run_loop toLowerCase lookup reqs)"
  "deprecated_of (dependencyResolutionTool toLowerCase lookup reqs) = deprecated_packages (run_loop toLowerCase lookup reqs)"
  "warnings_of (dependencyResolutionTool toLowerCase lookup reqs) = warnings (run_loop toLowerCase lookup reqs)"
  "conflicts_of (dependencyResolutionTool toLowerCase lookup reqs) =
     detectConflicts (resolved_packages (run_loop toLowerCase lookup reqs))"
  by (simp_all add: dependencyResolutionTool_def resolved_of_def deprecated_of_def
      warnings_of_def conflicts_of_def run_loop_def initial_state_def nonempty_or_undefined_def
      Let_def detectConflicts_def)


lemma tool_success:
  "success (dependencyResolutionTool toLowerCase lookup reqs) \<longleftrightarrow>
     detectConflicts (resolved_packages (run_loop toLowerCase lookup reqs)) = [] \<and>
     (resolved_packages (run_loop toLowerCase lookup reqs) \<noteq> [] \<or>
      deprecated_packages (run_loop toLowerCase lookup reqs) \<noteq> [])"
  by (simp add: dependencyResolutionTool_def run_loop_def initial_state_def Let_def
      detectConflicts_def)


lemma tool_error_when_unsuccessful:
  "\<not> success (dependencyResolutionTool toLowerCase lookup reqs) \<Longrightarrow>
   res_error (dependencyResolutionTool toLowerCase lookup reqs) \<noteq> None"
  by (cases "reqs = []") (simp_all add: dependencyResolutionTool_def Let_def)

subsection \<open>The duplicate scan\<close>

lemma set_scanDuplicates:
  "set (scanDuplicates S xs) =
     {n. n \<in> set (map pkg_name xs) \<and> (n \<in> S \<or> 2 \<le> count_list (map pkg_name xs) n)}"
proof (induction xs arbitrary: S)
  case Nil
  then show ?case by simp
next
  case (Cons p ps)
  have pos: "n \<in> set (map pkg_name ps) \<longleftrightarrow> 1 \<le> count_list (map pkg_name ps) n" for n
    using count_list_0_iff [of "map pkg_name ps" n] by auto
  show ?case
    using pos by (auto simp add: Cons.IH)
qed

lemma repeated_names:
  "set (scanDuplicates {} xs) = {n. 2 \<le> count_list (map pkg_name xs) n}"
proof -
  have "2 \<le> count_list (map pkg_name xs) n \<Longrightarrow> n \<in> set (map pkg_name xs)" for n
    using count_list_0_iff [of "map pkg_name xs" n] by auto
  then show ?thesis
    unfolding set_scanDuplicates by auto
qed

lemma scanDuplicates_empty_iff:
  "scanDuplicates {} xs = [] \<longleftrightarrow> distinct (map pkg_name xs)"
proof -
  have "scanDuplicates {} xs = [] \<longleftrightarrow> set (scanDuplicates {} xs) = {}" by simp
  also have "\<dots> \<longleftrightarrow> (\<forall>n \<in> set (map pkg_name xs). count_list (map pkg_name xs) n < 2)"
    unfolding set_scanDuplicates by auto
  also have "\<dots> \<longleftrightarrow> distinct (map pkg_name xs)"
    by (induction xs) (auto simp add: count_list_0_iff not_less Suc_le_eq)
  finally show ?thesis .
qed

lemma scanDuplicates_snoc:
  "scanDuplicates S (xs @ [x]) =
     scanDuplicates S xs @ (if pkg_name x \<in> S \<union> pkg_name ` set xs then [pkg_name x] else [])"
  by (induction xs arbitrary: S) auto

lemma repeated_occurrences_Nil:
  "repeated_occurrences [] = []"
  by (simp add: repeated_occurrences_def)

lemma repeated_occurrences_snoc:
  "repeated_occurrences (ns @ [n]) = repeated_occurrences ns @ (if n \<in> set ns then [n] else [])"
proof -
  define F where
    "F = (\<lambda>i. if (ns @ [n]) ! i \<in> set (take i (ns @ [n])) then [(ns @ [n]) ! i] else [])"
  define G where "G = (\<lambda>i. if ns ! i \<in> set (take i ns) then [ns ! i] else [])"
  have earlier: "map F [0..<length ns] = map G [0..<length ns]"
    by (rule map_cong) (simp_all add: F_def G_def nth_append)
  have latest: "F (length ns) = (if n \<in> set ns then [n] else [])"
    by (simp add: F_def)
  have "repeated_occurrences (ns @ [n]) = concat (map F [0..<length (ns @ [n])])"
    by (simp only: repeated_occurrences_def F_def)
  also have "\<dots> = concat (map F [0..<length ns]) @ F (length ns)"
    by simp
  also have "\<dots> = concat (map G [0..<length ns]) @ (if n \<in> set ns then [n] else [])"
    by (simp only: earlier latest)
  also have "\<dots> = repeated_occurrences ns @ (if n \<in> set ns then [n] else [])"
    by (simp only: repeated_occurrences_def G_def)
  finally show ?thesis .
qed

lemma scanDuplicates_repeated:
  "scanDuplicates {} xs = repeated_occurrences (map pkg_name xs)"
  by (induction xs rule: rev_induct)
    (simp_all add: scanDuplicates_snoc repeated_occurrences_snoc repeated_occurrences_Nil)

lemma count_repeated_occurrences:
  "count_list (repeated_occurrences ns) n = count_list ns n - 1"
proof (induction ns rule: rev_induct)
  case Nil
  then show ?case by (simp add: repeated_occurrences_Nil)
next
  case (snoc m ns)
  have "m \<in> set ns \<longleftrightarrow> 1 \<le> count_list ns m"
    using count_list_0_iff [of ns m] by auto
  with snoc show ?case
    by (auto simp add: repeated_occurrences_snoc)
qed

lemma detectConflicts_cases:
  "detectConflicts xs = [] \<and> distinct (map pkg_name xs) \<or>
   (\<exists>c. detectConflicts xs = [c] \<and> \<not> distinct (map pkg_name xs) \<and>
        conflict_packages c = repeated_occurrences (map pkg_name xs))"
  using scanDuplicates_empty_iff [of xs]
  by (auto simp add: detectConflicts_def Let_def scanDuplicates_repeated)

subsection \<open>The scenarios, evaluated\<close>

lemmas requirement_eval =
  processRequirement_def contribution_def initial_state_def Let_def
  js_trim_def whitespace_def ascii_toLowerCase_def
  builtInDeprecated_def deprecatedPackages_def object_prototype_key_def
  packageDeprecationAnalysisTool_def resolvedVersion_def js_or_def js_template_def
  first_alternative_def example_registry_def requirement_of_def

lemma contribution_django_minimum:
  "contribution ascii_toLowerCase example_registry django_minimum =
     \<lparr>resolved_packages = [\<lparr>pkg_name = ''django'', pkg_version = Some ''5.0''\<rparr>],
      deprecated_packages = [], warnings = []\<rparr>"
  by (simp add: requirement_eval django_minimum_def)

lemma contribution_Django_minimum:
  "contribution ascii_toLowerCase example_registry Django_minimum =
     \<lparr>resolved_packages = [\<lparr>pkg_name = ''Django'', pkg_version = Some ''5.0''\<rparr>],
      deprecated_packages = [], warnings = []\<rparr>"
  by (simp add: requirement_eval Django_minimum_def)

lemma contribution_django_pinned:
  "contribution ascii_toLowerCase example_registry django_pinned =
     \<lparr>resolved_packages = [\<lparr>pkg_name = ''django'', pkg_version = Some ''3.2''\<rparr>],
      deprecated_packages = [], warnings = []\<rparr>"
  by (simp add: requirement_eval django_pinned_def)

lemma contribution_numpy_any:
  "contribution ascii_toLowerCase example_registry numpy_any =
     \<lparr>resolved_packages = [\<lparr>pkg_name = ''numpy'', pkg_version = Some ''1.24.3''\<rparr>],
      deprecated_packages = [], warnings = []\<rparr>"
  by (simp add: requirement_eval numpy_any_def)

lemma contribution_pandas_minimum:
  "contribution ascii_toLowerCase example_registry pandas_minimum =
     \<lparr>resolved_packages = [\<lparr>pkg_name = ''pandas'', pkg_version = Some ''2.0.1''\<rparr>],
      deprecated_packages = [], warnings = []\<rparr>"
  by (simp add: requirement_eval pandas_minimum_def)

lemma contribution_numpy_fixed_without_operator:
  "contribution ascii_toLowerCase example_registry numpy_fixed_without_operator =
     \<lparr>resolved_packages = [\<lparr>pkg_name = ''numpy'', pkg_version = Some ''1.24.3''\<rparr>],
      deprecated_packages = [], warnings = []\<rparr>"
  by (simp add: requirement_eval numpy_fixed_without_operator_def)

lemma contribution_requests_maximum:
  "contribution ascii_toLowerCase example_registry requests_maximum =
     \<lparr>resolved_packages = [\<lparr>pkg_name = ''requests'', pkg_version = Some ''2.0''\<rparr>],
      deprecated_packages = [], warnings = []\<rparr>"
  by (simp add: requirement_eval requests_maximum_def)

lemma contribution_missing_package:
  "contribution ascii_toLowerCase example_registry missing_package =
     \<lparr>resolved_packages = [], deprecated_packages = [],
      warnings = [''Could not find package '' @ [CHR 0x27] @ ''nonexistent-package-xyz'' @
                  [CHR 0x27] @ '': not found on PyPI'']\<rparr>"
  by (simp add: requirement_eval missing_package_def)

lemma run_loop_two:
  "resolved_packages (run_loop toLowerCase lookup [a, b]) =
     resolved_packages (contribution toLowerCase lookup a) @ resolved_packages (contribution toLowerCase lookup b)"
  "deprecated_packages (run_loop toLowerCase lookup [a, b]) =
     deprecated_packages (contribution toLowerCase lookup a) @ deprecated_packages (contribution toLowerCase lookup b)"
  "warnings (run_loop toLowerCase lookup [a, b]) =
     warnings (contribution toLowerCase lookup a) @ warnings (contribution toLowerCase lookup b)"
  by (simp_all add: run_loop_Cons run_loop_Nil)

lemma run_loop_one:
  "resolved_packages (run_loop toLowerCase lookup [a]) = resolved_packages (contribution toLowerCase lookup a)"
  "deprecated_packages (run_loop toLowerCase lookup [a]) = deprecated_packages (contribution toLowerCase lookup a)"
  "warnings (run_loop toLowerCase lookup [a]) = warnings (contribution toLowerCase lookup a)"
  by (simp_all add: run_loop_Cons run_loop_Nil)

lemma contribution_missing_pinned:
  "contribution ascii_toLowerCase example_registry missing_pinned =
     \<lparr>resolved_packages = [], deprecated_packages = [],
      warnings = [''Could not find package '' @ [CHR 0x27] @ ''nonexistent-package-xyz'' @
                  [CHR 0x27] @ '': not found on PyPI'']\<rparr>"
  by (simp add: requirement_eval missing_pinned_def)

lemma scenario_names:
  "js_trim ''numpy'' = ''numpy''"
  "js_trim ''requests'' = ''requests''"
  "js_trim ''django'' = ''django''"
  "js_trim ''nonexistent-package-xyz'' = ''nonexistent-package-xyz''"
  by (simp_all add: js_trim_def whitespace_def)

lemma scenario_not_builtin:
  "builtInDeprecated (ascii_toLowerCase ''numpy'') = Missing"
  "builtInDeprecated (ascii_toLowerCase ''requests'') = Missing"
  "builtInDeprecated (ascii_toLowerCase ''django'') = Missing"
  "builtInDeprecated (ascii_toLowerCase ''nonexistent-package-xyz'') = Missing"
  by (simp_all add: builtInDeprecated_def ascii_toLowerCase_def
      object_prototype_key_def)

lemma run_loop_three:
  "resolved_packages (run_loop toLowerCase lookup [a, b, c]) =
     resolved_packages (contribution toLowerCase lookup a) @
     resolved_packages (contribution toLowerCase lookup b) @
     resolved_packages (contribution toLowerCase lookup c)"
  by (simp add: run_loop_Cons run_loop_Nil)


section \<open>Claims about the resolution tool\<close>

text \<open>
  C1, as stated, fails: for the test suite's "Version Conflict Detection" input both
  \<open>django\<close> entries stay in \<open>resolved_packages\<close>, beside the Conflict entry.
\<close>

theorem duplicates_are_kept_counterexample:
  "map pkg_name (resolved_of (dependencyResolutionTool ascii_toLowerCase example_registry
       [django_minimum, django_pinned])) = [''django'', ''django''] \<and>
   length (conflicts_of (dependencyResolutionTool ascii_toLowerCase example_registry
       [django_minimum, django_pinned])) = 1"
  by (simp add: tool_fields run_loop_two contribution_django_minimum contribution_django_pinned
      detectConflicts_def)

text \<open>
  C1, amended: \<open>resolved_packages\<close> holds one entry for every requirement that
  resolves, in input order, under its trimmed name, so a name required twice is there
  twice; the result has at most one Conflict entry. Where no two resolved names differ
  only in the case of their letters, the Conflict entry is there exactly when some name
  occurs more than once among the resolved packages, and its \<open>packages\<close> list every
  occurrence of a name after the first, in input order: a name resolved \<open>k\<close> times is
  listed \<open>k - 1\<close> times.
\<close>

theorem one_conflict_entry_for_repeated_names:
  "let r = dependencyResolutionTool toLowerCase lookup requirements;
       names = map pkg_name (resolved_of r)
   in names =
        map (\<lambda>q. js_trim (req_name q)) (filter (is_resolved toLowerCase lookup) requirements) \<and>
      length (conflicts_of r) \<le> 1 \<and>
      ((\<forall>a \<in> set names. \<forall>b \<in> set names. toLowerCase a = toLowerCase b \<longrightarrow> a = b) \<longrightarrow>
         (conflicts_of r = [] \<longleftrightarrow> distinct (map toLowerCase names)) \<and>
         (\<forall>c \<in> set (conflicts_of r).
            conflict_packages c = repeated_occurrences names \<and>
            (\<forall>n. count_list (conflict_packages c) n = count_list names n - 1)))"
proof -
  let ?r = "dependencyResolutionTool toLowerCase lookup requirements"
  let ?names = "map pkg_name (resolved_of ?r)"
  have names: "?names =
      map (\<lambda>q. js_trim (req_name q)) (filter (is_resolved toLowerCase lookup) requirements)"
    by (simp add: tool_fields(1) run_loop_names)
  have conflicts: "conflicts_of ?r = detectConflicts (resolved_of ?r)"
    by (simp add: tool_fields)
  from detectConflicts_cases [of "resolved_of ?r"]
  consider
      "detectConflicts (resolved_of ?r) = []" "distinct ?names"
    | c where "detectConflicts (resolved_of ?r) = [c]" "\<not> distinct ?names"
        "conflict_packages c = repeated_occurrences ?names"
    by blast
  then have scan: "length (conflicts_of ?r) \<le> 1 \<and>
      (conflicts_of ?r = [] \<longleftrightarrow> distinct ?names) \<and>
      (\<forall>c \<in> set (conflicts_of ?r). conflict_packages c = repeated_occurrences ?names)"
  proof cases
    case 1
    then show ?thesis unfolding conflicts by simp
  next
    case 2
    then show ?thesis unfolding conflicts by simp
  qed
  have folded: "distinct (map toLowerCase ?names) \<longleftrightarrow> distinct ?names"
    if "\<forall>a \<in> set ?names. \<forall>b \<in> set ?names. toLowerCase a = toLowerCase b \<longrightarrow> a = b"
  proof -
    from that have "inj_on toLowerCase (set ?names)"
      unfolding inj_on_def by blast
    with distinct_map [of toLowerCase ?names] show ?thesis
      by blast
  qed
  have counted: "\<forall>n. count_list (conflict_packages c) n = count_list ?names n - 1"
    if "conflict_packages c = repeated_occurrences ?names" for c
    using that by (simp add: count_repeated_occurrences)
  from names scan folded counted show ?thesis
    unfolding Let_def by blast
qed

theorem one_conflict_entry_for_repeated_names_witness:
  "map pkg_name (resolved_of (dependencyResolutionTool ascii_toLowerCase example_registry
       [django_minimum, django_pinned, django_minimum])) = [''django'', ''django'', ''django''] \<and>
   set (map pkg_name (resolved_of (dependencyResolutionTool ascii_toLowerCase example_registry
       [django_minimum, django_pinned, django_minimum]))) = {''django''} \<and>
   set (conflicts_of (dependencyResolutionTool ascii_toLowerCase example_registry
       [django_minimum, django_pinned, django_minimum]))
     = {\<lparr>conflict_packages = [''django'', ''django''],
          conflict_reason = ''Multiple requirements for the same package found'',
          conflict_suggested_resolution =
            Some ''Review and consolidate duplicate package requirements''\<rparr>} \<and>
   repeated_occurrences [''django'', ''django'', ''django''] = [''django'', ''django'']"
proof -
  let ?r = "dependencyResolutionTool ascii_toLowerCase example_registry
      [django_minimum, django_pinned, django_minimum]"
  let ?c = "\<lparr>conflict_packages = [''django'', ''django''],
       conflict_reason = ''Multiple requirements for the same package found'',
       conflict_suggested_resolution =
         Some ''Review and consolidate duplicate package requirements''\<rparr>"
  have names: "map pkg_name (resolved_of ?r) = [''django'', ''django'', ''django'']"
    by (simp add: tool_fields(1) run_loop_three contribution_django_minimum
        contribution_django_pinned)
  have consistent: "\<forall>a \<in> set [''django'', ''django'', ''django''].
      \<forall>b \<in> set [''django'', ''django'', ''django'']. ascii_toLowerCase a = ascii_toLowerCase b \<longrightarrow> a = b"
    by simp
  have c: "conflicts_of ?r = [?c]"
    by (simp add: tool_fields run_loop_three contribution_django_minimum
        contribution_django_pinned detectConflicts_def)
  from one_conflict_entry_for_repeated_names
    [of ascii_toLowerCase example_registry "[django_minimum, django_pinned, django_minimum]"]
  have "(\<forall>a \<in> set (map pkg_name (resolved_of ?r)). \<forall>b \<in> set (map pkg_name (resolved_of ?r)).
           ascii_toLowerCase a = ascii_toLowerCase b \<longrightarrow> a = b) \<longrightarrow>
        (\<forall>c \<in> set (conflicts_of ?r).
           conflict_packages c = repeated_occurrences (map pkg_name (resolved_of ?r)))"
    unfolding Let_def by blast
  with consistent have "conflict_packages ?c = repeated_occurrences [''django'', ''django'', ''django'']"
    unfolding names c by simp
  then have "repeated_occurrences [''django'', ''django'', ''django''] = [''django'', ''django'']"
    by simp
  with names c show ?thesis by simp
qed



subsection \<open>The version policy\<close>

lemma tool_resolved_middle:
  "resolved_of (dependencyResolutionTool toLowerCase lookup (before @ req # after)) =
     resolved_packages (run_loop toLowerCase lookup before) @ resolved_packages (contribution toLowerCase lookup req) @
     resolved_packages (run_loop toLowerCase lookup after)"
  by (simp add: tool_fields(1) run_loop_middle(1))

lemma contribution_after_lookup:
  assumes "reaches_version_policy toLowerCase lookup req"
  shows "resolved_packages (contribution toLowerCase lookup req) =
           [\<lparr>pkg_name = js_trim (req_name req),
             pkg_version = Some (resolvedVersion req (lookup (js_trim (req_name req))))\<rparr>]"
  using assms
  by (simp add: reaches_version_policy_def contribution_def processRequirement_def
      initial_state_def Let_def)

lemma resolvedVersion_pinned:
  assumes "req_version req = Some v" "v \<noteq> []" "req_operator req \<noteq> []"
    and "req_operator req = ''=='' \<or> req_fixed req"
  shows "resolvedVersion req packageLookup = v"
  using assms by (auto simp add: resolvedVersion_def Let_def)

lemma resolvedVersion_other_operator:
  assumes "req_version req = Some v" "v \<noteq> []" "req_operator req \<noteq> []"
    and "req_operator req \<noteq> ''>=''" "req_operator req \<noteq> ''>''"
  shows "resolvedVersion req packageLookup = v"
  using assms by (simp add: resolvedVersion_def js_or_def Let_def)

lemma resolvedVersion_unconstrained:
  assumes "req_operator req = [] \<or> req_version req = None \<or> req_version req = Some []"
  shows "resolvedVersion req packageLookup =
           js_or (lookup_latest_version packageLookup) ''unknown''"
  using assms by (auto simp add: resolvedVersion_def Let_def split: option.splits)

text \<open>
  C3, as stated, fails: a requirement with \<open>fixed = true\<close>, a version and no operator is
  resolved to the registry's latest version, and a pinned requirement whose lookup fails
  is not resolved at all.
\<close>

theorem fixed_flag_alone_counterexample:
  "req_fixed numpy_fixed_without_operator \<and>
   req_version numpy_fixed_without_operator = Some ''1.0'' \<and>
   resolved_of (dependencyResolutionTool ascii_toLowerCase example_registry [numpy_fixed_without_operator]) =
     [\<lparr>pkg_name = ''numpy'', pkg_version = Some ''1.24.3''\<rparr>] \<and>
   req_operator missing_pinned = ''=='' \<and>
   resolved_of (dependencyResolutionTool ascii_toLowerCase example_registry [missing_pinned]) = []"
proof -
  have "req_fixed numpy_fixed_without_operator"
    "req_version numpy_fixed_without_operator = Some ''1.0''"
    "req_operator missing_pinned = ''==''"
    by (simp_all add: numpy_fixed_without_operator_def missing_pinned_def requirement_of_def)
  moreover have
    "resolved_of (dependencyResolutionTool ascii_toLowerCase example_registry [numpy_fixed_without_operator]) =
       [\<lparr>pkg_name = ''numpy'', pkg_version = Some ''1.24.3''\<rparr>]"
    "resolved_of (dependencyResolutionTool ascii_toLowerCase example_registry [missing_pinned]) = []"
    by (simp_all add: tool_fields(1) run_loop_one contribution_numpy_fixed_without_operator
        contribution_missing_pinned)
  ultimately show ?thesis by simp
qed

text \<open>
  C3, amended: a requirement that reaches the version policy (non-empty trimmed name, no
  key of the built-in table, successful lookup) and has a non-empty operator and a
  non-empty version, with operator \<open>==\<close> or \<open>fixed = true\<close>, is resolved to the
  requested version as it is, whatever the lookup returned besides its success.
\<close>

theorem pinned_requirement_resolves_to_requested_version:
  assumes "reaches_version_policy toLowerCase lookup req"
    and "req_version req = Some v" and "v \<noteq> []" and "req_operator req \<noteq> []"
    and "req_operator req = ''=='' \<or> req_fixed req"
  shows "resolved_of (dependencyResolutionTool toLowerCase lookup (before @ req # after)) =
           resolved_packages (run_loop toLowerCase lookup before) @
           [\<lparr>pkg_name = js_trim (req_name req), pkg_version = Some v\<rparr>] @
           resolved_packages (run_loop toLowerCase lookup after)"
  using assms
  by (simp add: tool_resolved_middle contribution_after_lookup resolvedVersion_pinned)

theorem pinned_requirement_resolves_to_requested_version_witness:
  "reaches_version_policy ascii_toLowerCase example_registry django_pinned \<and>
   req_version django_pinned = Some ''3.2'' \<and> req_operator django_pinned = ''=='' \<and>
   resolved_of (dependencyResolutionTool ascii_toLowerCase example_registry [django_minimum, django_pinned]) =
     [\<lparr>pkg_name = ''django'', pkg_version = Some ''5.0''\<rparr>,
      \<lparr>pkg_name = ''django'', pkg_version = Some ''3.2''\<rparr>]"
proof -
  have reaches: "reaches_version_policy ascii_toLowerCase example_registry django_pinned"
    by (simp add: reaches_version_policy_def django_pinned_def requirement_of_def
        scenario_names scenario_not_builtin example_registry_def)
  have fields: "req_version django_pinned = Some ''3.2''" "''3.2'' \<noteq> []"
    "req_operator django_pinned \<noteq> []" "req_operator django_pinned = ''=='' \<or> req_fixed django_pinned"
    "req_operator django_pinned = ''==''" "js_trim (req_name django_pinned) = ''django''"
    by (simp_all add: django_pinned_def requirement_of_def scenario_names)
  from pinned_requirement_resolves_to_requested_version
    [where toLowerCase = ascii_toLowerCase and lookup = example_registry and req = django_pinned and before = "[django_minimum]"
       and after = "[]", OF reaches fields(1-4)]
  have "resolved_of (dependencyResolutionTool ascii_toLowerCase example_registry [django_minimum, django_pinned]) =
     [\<lparr>pkg_name = ''django'', pkg_version = Some ''5.0''\<rparr>,
      \<lparr>pkg_name = ''django'', pkg_version = Some ''3.2''\<rparr>]"
    by (simp add: run_loop_one run_loop_Nil contribution_django_minimum fields(6))
  with reaches fields show ?thesis by simp
qed

text \<open>
  C4, as stated, fails: \<open>requests<=2.0\<close> is resolved to \<open>2.0\<close>, not to the registry's
  latest version.
\<close>

theorem other_operator_keeps_requested_version_counterexample:
  "req_operator requests_maximum = ''<='' \<and>
   lookup_success (example_registry ''requests'') \<and>
   lookup_latest_version (example_registry ''requests'') = Some ''5.0'' \<and>
   resolved_of (dependencyResolutionTool ascii_toLowerCase example_registry [requests_maximum]) =
     [\<lparr>pkg_name = ''requests'', pkg_version = Some ''2.0''\<rparr>]"
proof -
  have "req_operator requests_maximum = ''<=''"
    by (simp add: requests_maximum_def requirement_of_def)
  moreover have "lookup_success (example_registry ''requests'')"
    "lookup_latest_version (example_registry ''requests'') = Some ''5.0''"
    by (simp_all add: example_registry_def)
  moreover have "resolved_of (dependencyResolutionTool ascii_toLowerCase example_registry [requests_maximum]) =
     [\<lparr>pkg_name = ''requests'', pkg_version = Some ''2.0''\<rparr>]"
    by (simp add: tool_fields(1) run_loop_one contribution_requests_maximum)
  ultimately show ?thesis by simp
qed

text \<open>
  C4, amended: a requirement that reaches the version policy and whose operator is none
  of \<open>==\<close>, \<open>>=\<close>, \<open>>\<close> is resolved to the registry's latest version (to
  \<open>unknown\<close> when the registry names none) if it has no operator or no version; if it has
  an operator and a non-empty version it is resolved to that requested version.
\<close>

theorem other_operator_version_policy:
  assumes "reaches_version_policy toLowerCase lookup req"
    and "req_operator req \<noteq> ''==''" and "req_operator req \<noteq> ''>=''"
    and "req_operator req \<noteq> ''>''"
  shows "resolved_of (dependencyResolutionTool toLowerCase lookup (before @ req # after)) =
           resolved_packages (run_loop toLowerCase lookup before) @
           [\<lparr>pkg_name = js_trim (req_name req),
             pkg_version = Some
               (case req_version req of
                  None \<Rightarrow> js_or (lookup_latest_version (lookup (js_trim (req_name req)))) ''unknown''
                | Some v \<Rightarrow>
                    if v \<noteq> [] \<and> req_operator req \<noteq> [] then v
                    else js_or (lookup_latest_version (lookup (js_trim (req_name req)))) ''unknown'')\<rparr>] @
           resolved_packages (run_loop toLowerCase lookup after)"
proof (cases "req_version req")
  case None
  then show ?thesis
    using assms(1)
    by (simp add: tool_resolved_middle contribution_after_lookup resolvedVersion_unconstrained)
next
  case (Some v)
  show ?thesis
  proof (cases "v \<noteq> [] \<and> req_operator req \<noteq> []")
    case True
    then have "resolvedVersion req (lookup (js_trim (req_name req))) = v"
      using Some assms(3,4) by (simp add: resolvedVersion_other_operator)
    with True Some assms(1) show ?thesis
      by (simp add: tool_resolved_middle contribution_after_lookup)
  next
    case False
    then have "req_operator req = [] \<or> req_version req = None \<or> req_version req = Some []"
      using Some by auto
    then have "resolvedVersion req (lookup (js_trim (req_name req))) =
        js_or (lookup_latest_version (lookup (js_trim (req_name req)))) ''unknown''"
      by (rule resolvedVersion_unconstrained)
    with False Some assms(1) show ?thesis
      by (auto simp add: tool_resolved_middle contribution_after_lookup)
  qed
qed

theorem other_operator_version_policy_witness:
  "reaches_version_policy ascii_toLowerCase example_registry numpy_any \<and> req_operator numpy_any = [] \<and>
   reaches_version_policy ascii_toLowerCase example_registry requests_maximum \<and>
   req_operator requests_maximum = ''<='' \<and>
   resolved_of (dependencyResolutionTool ascii_toLowerCase example_registry [numpy_any]) =
     [\<lparr>pkg_name = ''numpy'', pkg_version = Some ''1.24.3''\<rparr>] \<and>
   resolved_of (dependencyResolutionTool ascii_toLowerCase example_registry [requests_maximum]) =
     [\<lparr>pkg_name = ''requests'', pkg_version = Some ''2.0''\<rparr>]"
proof -
  have reaches: "reaches_version_policy ascii_toLowerCase example_registry numpy_any"
    "reaches_version_policy ascii_toLowerCase example_registry requests_maximum"
    by (simp_all add: reaches_version_policy_def numpy_any_def requests_maximum_def
        requirement_of_def scenario_names scenario_not_builtin example_registry_def)
  have ops: "req_operator numpy_any = []" "req_operator requests_maximum = ''<=''"
    by (simp_all add: numpy_any_def requests_maximum_def requirement_of_def)
  have numpy_operator: "req_operator numpy_any \<noteq> ''==''" "req_operator numpy_any \<noteq> ''>=''"
    "req_operator numpy_any \<noteq> ''>''"
    by (simp_all add: ops)
  have requests_operator: "req_operator requests_maximum \<noteq> ''==''"
    "req_operator requests_maximum \<noteq> ''>=''" "req_operator requests_maximum \<noteq> ''>''"
    by (simp_all add: ops)
  have numpy: "js_trim (req_name numpy_any) = ''numpy''" "req_version numpy_any = None"
    by (simp_all add: numpy_any_def requirement_of_def scenario_names)
  have requests: "js_trim (req_name requests_maximum) = ''requests''"
    "req_version requests_maximum = Some ''2.0''"
    by (simp_all add: requests_maximum_def requirement_of_def scenario_names)
  from other_operator_version_policy
    [where toLowerCase = ascii_toLowerCase and lookup = example_registry and req = numpy_any and before = "[]" and after = "[]",
      OF reaches(1) numpy_operator]
  have latest: "resolved_of (dependencyResolutionTool ascii_toLowerCase example_registry [numpy_any]) =
     [\<lparr>pkg_name = ''numpy'', pkg_version = Some ''1.24.3''\<rparr>]"
    by (simp add: run_loop_Nil numpy example_registry_def js_or_def)
  from other_operator_version_policy
    [where toLowerCase = ascii_toLowerCase and lookup = example_registry and req = requests_maximum and before = "[]"
       and after = "[]", OF reaches(2) requests_operator]
  have requested: "resolved_of (dependencyResolutionTool ascii_toLowerCase example_registry [requests_maximum]) =
     [\<lparr>pkg_name = ''requests'', pkg_version = Some ''2.0''\<rparr>]"
    by (simp add: run_loop_Nil requests ops)
  from reaches ops latest requested show ?thesis by blast
qed

text \<open>
  C8: a requirement whose lookup fails adds the warning
  \<open>Could not find package 'X': <error>\<close> and nothing else: the resolved and deprecated
  packages, the conflicts and \<open>success\<close> are those of the call without that
  requirement, and the warnings of the other requirements stay as they are, around the
  new one.
\<close>

theorem failed_lookup_is_absorbed:
  assumes "js_trim (req_name req) \<noteq> []"
    and "builtInDeprecated (toLowerCase (js_trim (req_name req))) = Missing"
    and "\<not> lookup_success (lookup (js_trim (req_name req)))"
  shows "let r = dependencyResolutionTool toLowerCase lookup (before @ req # after);
             r' = dependencyResolutionTool toLowerCase lookup (before @ after)
         in resolved_of r = resolved_of r' \<and> deprecated_of r = deprecated_of r' \<and>
            conflicts_of r = conflicts_of r' \<and> success r = success r' \<and>
            warnings_of r' = warnings (run_loop toLowerCase lookup before) @ warnings (run_loop toLowerCase lookup after) \<and>
            warnings_of r =
              warnings (run_loop toLowerCase lookup before) @
              [''Could not find package '' @ [CHR 0x27] @ js_trim (req_name req) @ [CHR 0x27] @
               '': '' @ js_template (lookup_error (lookup (js_trim (req_name req))))] @
              warnings (run_loop toLowerCase lookup after)"
proof -
  have contribution:
    "resolved_packages (contribution toLowerCase lookup req) = []"
    "deprecated_packages (contribution toLowerCase lookup req) = []"
    "warnings (contribution toLowerCase lookup req) =
       [''Could not find package '' @ [CHR 0x27] @ js_trim (req_name req) @ [CHR 0x27] @
        '': '' @ js_template (lookup_error (lookup (js_trim (req_name req))))]"
    using assms
    by (simp_all add: contribution_def processRequirement_def initial_state_def Let_def)
  have same:
    "resolved_packages (run_loop toLowerCase lookup (before @ req # after)) =
       resolved_packages (run_loop toLowerCase lookup (before @ after))"
    "deprecated_packages (run_loop toLowerCase lookup (before @ req # after)) =
       deprecated_packages (run_loop toLowerCase lookup (before @ after))"
    by (simp_all add: run_loop_append run_loop_Cons contribution)
  show ?thesis
    unfolding Let_def tool_fields tool_success same
    by (simp add: run_loop_append(3) run_loop_Cons(3) contribution(3))
qed

theorem failed_lookup_is_absorbed_witness:
  "js_trim (req_name missing_package) \<noteq> [] \<and>
   \<not> lookup_success (example_registry (js_trim (req_name missing_package))) \<and>
   resolved_of (dependencyResolutionTool ascii_toLowerCase example_registry
       [numpy_any, missing_package, pandas_minimum]) =
     [\<lparr>pkg_name = ''numpy'', pkg_version = Some ''1.24.3''\<rparr>,
      \<lparr>pkg_name = ''pandas'', pkg_version = Some ''2.0.1''\<rparr>] \<and>
   success (dependencyResolutionTool ascii_toLowerCase example_registry
       [numpy_any, missing_package, pandas_minimum]) \<and>
   warnings_of (dependencyResolutionTool ascii_toLowerCase example_registry
       [numpy_any, missing_package, pandas_minimum]) =
     [''Could not find package '' @ [CHR 0x27] @ ''nonexistent-package-xyz'' @ [CHR 0x27] @
      '': not found on PyPI'']"
proof -
  have name: "js_trim (req_name missing_package) = ''nonexistent-package-xyz''"
    by (simp add: missing_package_def requirement_of_def scenario_names)
  have hyps: "js_trim (req_name missing_package) \<noteq> []"
    "builtInDeprecated (ascii_toLowerCase (js_trim (req_name missing_package))) = Missing"
    "\<not> lookup_success (example_registry (js_trim (req_name missing_package)))"
    unfolding name by (simp_all add: scenario_not_builtin example_registry_def)
  have without: "resolved_of (dependencyResolutionTool ascii_toLowerCase example_registry [numpy_any, pandas_minimum]) =
     [\<lparr>pkg_name = ''numpy'', pkg_version = Some ''1.24.3''\<rparr>,
      \<lparr>pkg_name = ''pandas'', pkg_version = Some ''2.0.1''\<rparr>]"
    "success (dependencyResolutionTool ascii_toLowerCase example_registry [numpy_any, pandas_minimum])"
    by (simp_all add: tool_fields(1) tool_success run_loop_two contribution_numpy_any
        contribution_pandas_minimum detectConflicts_def)
  have quiet: "warnings (run_loop ascii_toLowerCase example_registry [numpy_any]) = []"
    "warnings (run_loop ascii_toLowerCase example_registry [pandas_minimum]) = []"
    by (simp_all add: run_loop_one contribution_numpy_any contribution_pandas_minimum)
  from failed_lookup_is_absorbed
    [where toLowerCase = ascii_toLowerCase and lookup = example_registry and req = missing_package and before = "[numpy_any]"
       and after = "[pandas_minimum]", OF hyps]
  show ?thesis
    using hyps(1,3) without quiet
    by (simp add: Let_def name example_registry_def js_template_def)
qed

section \<open>Claims about the manifest\<close>

lemma sortedPackages_permutation:
  assumes "mset xs = mset ys"
    and "\<forall>p :: sourced_package.
           filter (\<lambda>q. compare localeCompare (sp_name p) (sp_name q) = Equiv) xs =
             filter (\<lambda>q. compare localeCompare (sp_name p) (sp_name q) = Equiv) ys"
  shows "sortedPackages localeCompare ys = sortedPackages localeCompare xs"
  unfolding sortedPackages_def
proof (rule sort_eqI)
  show "mset ys = mset (sort (key sp_name localeCompare) xs)"
    using assms(1) by simp
  show "sorted (key sp_name localeCompare) (sort (key sp_name localeCompare) xs)"
    by simp
  fix p
  assume "p \<in> set ys"
  have "filter (\<lambda>q. compare (key sp_name localeCompare) p q = Equiv)
          (sort (key sp_name localeCompare) xs) =
        filter (\<lambda>q. compare (key sp_name localeCompare) p q = Equiv) xs"
    by (rule stable_sort)
  with assms(2) [THEN spec, of p] show
    "filter (\<lambda>q. compare (key sp_name localeCompare) p q = Equiv) ys =
     filter (\<lambda>q. compare (key sp_name localeCompare) p q = Equiv)
       (sort (key sp_name localeCompare) xs)"
    by simp
qed

text \<open>
  C9, as stated, fails: the two orders of the resolved packages of the "Version Conflict
  Detection" input are permutations of each other, and their manifests differ.
\<close>

theorem same_name_manifest_counterexample:
  "mset [sourced ''django'' ''5.0'', sourced ''django'' ''3.2''] =
     mset [sourced ''django'' ''3.2'', sourced ''django'' ''5.0''] \<and>
   requirementsGeneratorTool code_unit_order example_now
     [sourced ''django'' ''5.0'', sourced ''django'' ''3.2''] True True \<noteq>
   requirementsGeneratorTool code_unit_order example_now
     [sourced ''django'' ''3.2'', sourced ''django'' ''5.0''] True True"
proof -
  have "sortedPackages code_unit_order [sourced ''django'' ''5.0'', sourced ''django'' ''3.2''] =
      [sourced ''django'' ''5.0'', sourced ''django'' ''3.2'']"
    "sortedPackages code_unit_order [sourced ''django'' ''3.2'', sourced ''django'' ''5.0''] =
      [sourced ''django'' ''3.2'', sourced ''django'' ''5.0'']"
    by (simp_all add: sortedPackages_def code_unit_order_def sourced_def)
  then show ?thesis
    by (simp add: requirementsGeneratorTool_def package_line_def sourced_def js_template_def
        add_mset_commute)
qed

text \<open>
  C9, amended: the manifest text is its header, then one line for each resolved package,
  the packages taken in the order of their names under \<open>localeCompare\<close> (a sorted
  rearrangement of the input), then its closing comment. Two resolved-package lists that
  are permutations of each other and list the packages whose names compare equal in the
  same relative order give the same manifest text, for the same timestamp in its header.
\<close>

theorem manifest_is_sorted_and_order_independent:
  assumes "mset xs = mset ys"
    and "\<forall>p :: sourced_package.
           filter (\<lambda>q. compare localeCompare (sp_name p) (sp_name q) = Equiv) xs =
             filter (\<lambda>q. compare localeCompare (sp_name p) (sp_name q) = Equiv) ys"
  shows "requirementsGeneratorTool localeCompare now xs include_comments pin_versions =
           (if include_comments then manifest_header now (length xs) else []) @
           concat (map (package_line include_comments pin_versions)
                     (sortedPackages localeCompare xs)) @
           (if include_comments \<and> xs \<noteq> []
            then [newline] @ ''# End of requirements'' @ [newline] else []) \<and>
         sorted (key sp_name localeCompare) (sortedPackages localeCompare xs) \<and>
         mset (sortedPackages localeCompare xs) = mset xs \<and>
         requirementsGeneratorTool localeCompare now xs include_comments pin_versions =
         requirementsGeneratorTool localeCompare now ys include_comments pin_versions"
proof -
  have "length xs = length ys"
    using assms(1) by (rule mset_eq_length)
  moreover have "xs = [] \<longleftrightarrow> ys = []"
    using assms(1) by (metis mset_zero_iff)
  moreover have "sortedPackages localeCompare ys = sortedPackages localeCompare xs"
    using assms by (rule sortedPackages_permutation)
  ultimately have same: "requirementsGeneratorTool localeCompare now xs include_comments pin_versions =
      requirementsGeneratorTool localeCompare now ys include_comments pin_versions"
    by (simp add: requirementsGeneratorTool_def)
  have manifest: "requirementsGeneratorTool localeCompare now xs include_comments pin_versions =
      (if include_comments then manifest_header now (length xs) else []) @
      concat (map (package_line include_comments pin_versions) (sortedPackages localeCompare xs)) @
      (if include_comments \<and> xs \<noteq> []
       then [newline] @ ''# End of requirements'' @ [newline] else [])"
    by (simp add: requirementsGeneratorTool_def)
  have "sorted (key sp_name localeCompare) (sortedPackages localeCompare xs)"
    "mset (sortedPackages localeCompare xs) = mset xs"
    by (simp_all add: sortedPackages_def)
  with manifest same show ?thesis by blast
qed

theorem manifest_is_sorted_and_order_independent_witness:
  "mset [sourced ''pandas'' ''2.0.1'', sourced ''numpy'' ''1.24.3''] =
     mset [sourced ''numpy'' ''1.24.3'', sourced ''pandas'' ''2.0.1''] \<and>
   sortedPackages code_unit_order [sourced ''pandas'' ''2.0.1'', sourced ''numpy'' ''1.24.3''] =
     [sourced ''numpy'' ''1.24.3'', sourced ''pandas'' ''2.0.1''] \<and>
   requirementsGeneratorTool code_unit_order example_now
     [sourced ''pandas'' ''2.0.1'', sourced ''numpy'' ''1.24.3''] True True =
   requirementsGeneratorTool code_unit_order example_now
     [sourced ''numpy'' ''1.24.3'', sourced ''pandas'' ''2.0.1''] True True"
proof -
  let ?xs = "[sourced ''pandas'' ''2.0.1'', sourced ''numpy'' ''1.24.3'']"
  let ?ys = "[sourced ''numpy'' ''1.24.3'', sourced ''pandas'' ''2.0.1'']"
  have perm: "mset ?xs = mset ?ys"
    by (simp add: add_mset_commute)
  have segments:
    "\<forall>p :: sourced_package.
         filter (\<lambda>q. compare code_unit_order (sp_name p) (sp_name q) = Equiv) ?xs =
         filter (\<lambda>q. compare code_unit_order (sp_name p) (sp_name q) = Equiv) ?ys"
    by (auto simp add: code_unit_order_def sourced_def)
  have sorted_xs: "sortedPackages code_unit_order ?xs = ?ys"
    by (simp add: sortedPackages_def code_unit_order_def sourced_def)
  from manifest_is_sorted_and_order_independent
    [OF perm segments, of example_now True True]
  have "requirementsGeneratorTool code_unit_order example_now ?xs True True =
        requirementsGeneratorTool code_unit_order example_now ?ys True True"
    by blast
  with perm sorted_xs show ?thesis by blast
qed

subsection \<open>The lines of the manifest\<close>












section \<open>Claims about the orchestrator\<close>

subsection \<open>The scenarios, evaluated\<close>

lemma parse_example_body:
  "ResolutionRequestSchema_parse example_body = Some example_request"
  by (simp add: ResolutionRequestSchema_parse_def example_body_def example_request_def
      DependencyConstraintSchema_parse_def with_default_def operator_enum_def
      missing_package_def requirement_of_def js_or_def)

lemma parse_empty_body:
  "ResolutionRequestSchema_parse empty_body = Some empty_request"
  by (simp add: ResolutionRequestSchema_parse_def empty_body_def empty_request_def
      with_default_def)

lemma example_submitted_eq:
  "example_submitted =
     \<lparr>store = [generateReportKey ''job1'' \<mapsto> ProcessingStatus ''job1'' example_now example_request],
      pending = {example_job}, issued = {''job1''}\<rparr>"
  by (simp add: example_submitted_def after_submit_def handleResolutionRequest_def
      parse_example_body initial_service_def example_job_def)

lemma tool_on_missing_package:
  "dependencyResolutionTool ascii_toLowerCase example_registry [missing_package] = unresolved_result"
proof -
  have "run_loop ascii_toLowerCase example_registry [missing_package] = contribution ascii_toLowerCase example_registry missing_package"
    by (simp add: run_loop_def contribution_def)
  then have "fold (processRequirement ascii_toLowerCase example_registry) [missing_package] initial_state =
      \<lparr>resolved_packages = [], deprecated_packages = [],
       warnings = [''Could not find package '' @ [CHR 0x27] @ ''nonexistent-package-xyz'' @
                   [CHR 0x27] @ '': not found on PyPI'']\<rparr>"
    by (simp add: run_loop_def contribution_missing_package)
  then show ?thesis
    unfolding dependencyResolutionTool_def
    by (simp add: Let_def detectConflicts_def nonempty_or_undefined_def unresolved_result_def)
qed

lemma resolve_example_request:
  "resolveDependencies (env_execute example_env) example_request example_research =
     unresolved_result"
  by (simp add: resolveDependencies_def example_env_def tools_dependency_resolution_def
      example_request_def tool_on_missing_package unresolved_result_def enhanceDeprecated_def)

subsection \<open>What a pipeline run writes\<close>

lemma pipeline_cases:
  "pipeline env j st =
     (case env_research env (map req_name (rq_requirements (job_request j))) of
        Inl message \<Rightarrow> Inl message
      | Inr research \<Rightarrow>
          if env_report_put_ok env then
            Inr (st(generateReportKey (job_id j) \<mapsto>
                   StoredReport (generateReport env (job_id j) (job_request j)
                     (resolveDependencies (env_execute env) (job_request j) research)
                     (job_startTime j))))
          else Inl (env_put_error env))"
  by (simp add: pipeline_def storeReport_def Let_def split: sum.splits)

lemma status_of_report:
  "st (generateReportKey reportId) = Some (StoredReport report) \<Longrightarrow>
   getResolutionStatus st True reportId = Completed (StoredReport report)"
  by (simp add: getResolutionStatus_def)

lemma pipeline_outage:
  "pipeline outage_env example_job (store example_submitted) = Inl ''R2 unavailable''"
  "pipeline unwritable_report_env example_job (store example_submitted) = Inl ''R2 unavailable''"
  by (simp_all add: pipeline_cases outage_env_def unwritable_report_env_def example_env_def)

lemma resolve_empty_request:
  "resolveDependencies (env_execute example_env) empty_request example_research =
     no_requirements_result"
  by (simp add: resolveDependencies_def example_env_def tools_dependency_resolution_def
      empty_request_def dependencyResolutionTool_def no_requirements_result_def)

lemma report_result:
  "rep_result (generateReport env reportId request resolutionResult startTime) = resolutionResult"
  by (simp add: generateReport_def)

lemma resolve_nothing:
  assumes "rq_requirements request = []"
  shows "resolveDependencies (tools_dependency_resolution toLowerCase lookup) request research =
           no_requirements_result"
  using assms
  by (simp add: resolveDependencies_def tools_dependency_resolution_def
      dependencyResolutionTool_def no_requirements_result_def)

lemma parse_empty_list:
  assumes "raw_requirements body = Some []"
  shows "\<exists>request. ResolutionRequestSchema_parse body = Some request \<and> rq_requirements request = []"
  using assms by (simp add: ResolutionRequestSchema_parse_def)

lemma parse_missing_requirements:
  "ResolutionRequestSchema_parse missing_requirements_body = None"
  by (simp add: ResolutionRequestSchema_parse_def missing_requirements_body_def)

text \<open>
  C5, as stated, fails: the schema is \<open>z.array(DependencyConstraintSchema)\<close> without a
  lower bound, so a body with an empty requirement list parses; the handler writes the
  \<open>processing\<close> document, hands the job to \<open>waitUntil\<close> and answers with the new
  id. The pipeline then stores a report around the tool's "No requirements provided"
  result, and the job polls as completed.
\<close>

theorem empty_submission_is_accepted_counterexample:
  "handleResolutionRequest empty_body ''job1'' example_now 0 True Map.empty =
     \<lparr>sub_response = Started ''job1'',
      sub_store = [generateReportKey ''job1'' \<mapsto> ProcessingStatus ''job1'' example_now empty_request],
      sub_launched = Some empty_job\<rparr> \<and>
   getResolutionStatus
       (processResolution example_env empty_job
          [generateReportKey ''job1'' \<mapsto> ProcessingStatus ''job1'' example_now empty_request])
       True ''job1'' =
     Completed (StoredReport
       (generateReport example_env ''job1'' empty_request no_requirements_result 0))"
proof -
  have "processResolution example_env empty_job
          [generateReportKey ''job1'' \<mapsto> ProcessingStatus ''job1'' example_now empty_request]
          (generateReportKey ''job1'') =
        Some (StoredReport
          (generateReport example_env ''job1'' empty_request no_requirements_result 0))"
    unfolding processResolution_def pipeline_cases
    by (simp add: example_env_def empty_job_def
        resolve_empty_request [unfolded example_env_def, simplified])
  then show ?thesis
    by (simp add: handleResolutionRequest_def parse_empty_body empty_job_def status_of_report)
qed

text \<open>
  C5, amended: a submission whose requirement list is empty is accepted: the handler
  answers \<open>{id, status: processing}\<close>, writes the \<open>processing\<close> record and launches
  the pipeline. The empty list is reported by the job: the resolution tool returns
  \<open>{success: false, error: "No requirements provided"}\<close>, the pipeline stores the
  report around that result, with an empty manifest, and the job polls as completed.
  The handler rejects synchronously, before any record is written or pipeline launched,
  only a body that the schema refuses.
\<close>

theorem empty_submission_is_reported_by_the_job:
  "(ResolutionRequestSchema_parse body = None \<longrightarrow>
      handleResolutionRequest body reportId now startTime put_ok st =
        \<lparr>sub_response = ParseFailed, sub_store = st, sub_launched = None\<rparr>) \<and>
   (raw_requirements body = Some [] \<longrightarrow>
      (\<exists>request.
         ResolutionRequestSchema_parse body = Some request \<and> rq_requirements request = [] \<and>
         handleResolutionRequest body reportId now startTime put_ok st =
           \<lparr>sub_response = Started reportId,
            sub_store =
              (if put_ok then
                 st(generateReportKey reportId \<mapsto> ProcessingStatus reportId now request)
               else st),
            sub_launched =
              Some \<lparr>job_id = reportId, job_request = request, job_startTime = startTime\<rparr>\<rparr>)) \<and>
   (rq_requirements (job_request j) = [] \<and>
    env_execute env = tools_dependency_resolution toLowerCase lookup \<and>
    env_research env [] = Inr research \<and> env_report_put_ok env \<longrightarrow>
      (\<exists>report.
         getResolutionStatus (processResolution env j st) True (job_id j) =
           Completed (StoredReport report) \<and>
         rep_result report = no_requirements_result \<and> rep_requirements_txt report = []))"
proof -
  have refused: "handleResolutionRequest body reportId now startTime put_ok st =
        \<lparr>sub_response = ParseFailed, sub_store = st, sub_launched = None\<rparr>"
    if "ResolutionRequestSchema_parse body = None"
    using that by (simp add: handleResolutionRequest_def)
  have accepted: "\<exists>request.
         ResolutionRequestSchema_parse body = Some request \<and> rq_requirements request = [] \<and>
         handleResolutionRequest body reportId now startTime put_ok st =
           \<lparr>sub_response = Started reportId,
            sub_store =
              (if put_ok then
                 st(generateReportKey reportId \<mapsto> ProcessingStatus reportId now request)
               else st),
            sub_launched =
              Some \<lparr>job_id = reportId, job_request = request, job_startTime = startTime\<rparr>\<rparr>"
    if "raw_requirements body = Some []"
  proof -
    from that obtain request where
      request: "ResolutionRequestSchema_parse body = Some request" "rq_requirements request = []"
      using parse_empty_list by blast
    then show ?thesis
      by (simp add: handleResolutionRequest_def)
  qed
  have reported: "\<exists>report.
         getResolutionStatus (processResolution env j st) True (job_id j) =
           Completed (StoredReport report) \<and>
         rep_result report = no_requirements_result \<and> rep_requirements_txt report = []"
    if empty: "rq_requirements (job_request j) = []"
      and tool: "env_execute env = tools_dependency_resolution toLowerCase lookup"
      and research: "env_research env [] = Inr research" and put: "env_report_put_ok env"
  proof -
    let ?report = "generateReport env (job_id j) (job_request j) no_requirements_result
        (job_startTime j)"
    have "resolveDependencies (env_execute env) (job_request j) research = no_requirements_result"
      unfolding tool using empty by (rule resolve_nothing)
    then have "processResolution env j st (generateReportKey (job_id j)) =
        Some (StoredReport ?report)"
      using empty research put by (simp add: processResolution_def pipeline_cases)
    then have "getResolutionStatus (processResolution env j st) True (job_id j) =
        Completed (StoredReport ?report)"
      by (rule status_of_report)
    moreover have "rep_result ?report = no_requirements_result"
      by (rule report_result)
    moreover have "rep_requirements_txt ?report = []"
      by (simp add: generateReport_def no_requirements_result_def)
    ultimately show ?thesis by blast
  qed
  from refused accepted reported show ?thesis by blast
qed

theorem empty_submission_is_reported_by_the_job_witness:
  "ResolutionRequestSchema_parse missing_requirements_body = None \<and>
   sub_launched (handleResolutionRequest missing_requirements_body ''job1'' example_now 0 True
       Map.empty) = None \<and>
   raw_requirements empty_body = Some [] \<and>
   sub_response (handleResolutionRequest empty_body ''job1'' example_now 0 True Map.empty) =
     Started ''job1'' \<and>
   rq_requirements (job_request empty_job) = [] \<and>
   env_execute example_env = tools_dependency_resolution ascii_toLowerCase example_registry \<and>
   env_research example_env [] = Inr example_research \<and> env_report_put_ok example_env \<and>
   (\<exists>report.
      getResolutionStatus (processResolution example_env empty_job Map.empty) True ''job1'' =
        Completed (StoredReport report) \<and>
      rep_result report = no_requirements_result)"
proof -
  have refused: "ResolutionRequestSchema_parse missing_requirements_body = None"
    by (rule parse_missing_requirements)
  have empty: "raw_requirements empty_body = Some []"
    by (simp add: empty_body_def)
  have job: "rq_requirements (job_request empty_job) = []" "job_id empty_job = ''job1''"
    by (simp_all add: empty_job_def empty_request_def)
  have env: "env_execute example_env = tools_dependency_resolution ascii_toLowerCase example_registry"
    "env_research example_env [] = Inr example_research" "env_report_put_ok example_env"
    by (simp_all add: example_env_def)
  note t1 = empty_submission_is_reported_by_the_job
    [where body = missing_requirements_body and reportId = "''job1''" and now = example_now
       and startTime = 0 and put_ok = True and st = Map.empty]
  note t2 = empty_submission_is_reported_by_the_job
    [where body = empty_body and reportId = "''job1''" and now = example_now
       and startTime = 0 and put_ok = True and st = Map.empty and j = empty_job
       and env = example_env and toLowerCase = ascii_toLowerCase and lookup = example_registry
       and research = example_research]
  from t1 refused
  have "handleResolutionRequest missing_requirements_body ''job1'' example_now 0 True Map.empty =
      \<lparr>sub_response = ParseFailed, sub_store = Map.empty, sub_launched = None\<rparr>"
    by blast
  then have none: "sub_launched (handleResolutionRequest missing_requirements_body ''job1''
      example_now 0 True Map.empty) = None"
    by simp
  from t2 empty obtain request where
    "handleResolutionRequest empty_body ''job1'' example_now 0 True Map.empty =
       \<lparr>sub_response = Started ''job1'',
        sub_store =
          (if True then
             Map.empty(generateReportKey ''job1'' \<mapsto> ProcessingStatus ''job1'' example_now request)
           else Map.empty),
        sub_launched = Some \<lparr>job_id = ''job1'', job_request = request, job_startTime = 0\<rparr>\<rparr>"
    by blast
  then have started: "sub_response (handleResolutionRequest empty_body ''job1'' example_now 0 True
      Map.empty) = Started ''job1''"
    by simp
  from t2 job(1) env
  have "\<exists>report.
      getResolutionStatus (processResolution example_env empty_job Map.empty) True
        (job_id empty_job) = Completed (StoredReport report) \<and>
      rep_result report = no_requirements_result \<and> rep_requirements_txt report = []"
    by blast
  then have "\<exists>report.
      getResolutionStatus (processResolution example_env empty_job Map.empty) True ''job1'' =
        Completed (StoredReport report) \<and>
      rep_result report = no_requirements_result"
    unfolding job(2) by blast
  with refused none empty started job(1) env show ?thesis by blast
qed

lemma resolve_with_the_tool:
  "success (resolveDependencies (tools_dependency_resolution toLowerCase lookup) request research) =
     success (dependencyResolutionTool toLowerCase lookup (rq_requirements request))"
  "res_error (resolveDependencies (tools_dependency_resolution toLowerCase lookup) request research) =
     res_error (dependencyResolutionTool toLowerCase lookup (rq_requirements request))"
  by (simp_all add: resolveDependencies_def tools_dependency_resolution_def Let_def
      split: option.splits)

text \<open>
  C6, as stated, fails: the resolution of a request for a package the registry does not
  know fails (\<open>success = false\<close>, "No packages could be resolved"); the report is
  generated from that result and stored, and the job polls as completed.
\<close>

theorem failed_resolution_is_compiled_counterexample:
  "resolveDependencies (env_execute example_env) example_request example_research =
     unresolved_result \<and>
   \<not> success unresolved_result \<and>
   getResolutionStatus (processResolution example_env example_job (store example_submitted))
       True ''job1'' =
     Completed (StoredReport
       (generateReport example_env ''job1'' example_request unresolved_result 0)) \<and>
   rep_result (generateReport example_env ''job1'' example_request unresolved_result 0) =
     unresolved_result"
proof -
  have "processResolution example_env example_job (store example_submitted)
          (generateReportKey ''job1'') =
        Some (StoredReport (generateReport example_env ''job1'' example_request unresolved_result 0))"
    unfolding processResolution_def pipeline_cases
    by (simp add: example_env_def example_job_def resolve_example_request [unfolded example_env_def, simplified])
  then show ?thesis
    by (simp add: resolve_example_request status_of_report unresolved_result_def report_result)
qed

text \<open>
  C6, amended: a failure of the resolution phase never fails the job.
  \<open>resolveDependencies\<close> turns an error raised by the resolution tool into the result
  \<open>{success: false, error}\<close>; the tool of this repository never raises and reports its
  own failures as a result with \<open>success: false\<close> and an \<open>error\<close> text, which
  \<open>resolveDependencies\<close> keeps. Whenever the research phase returns and the report can
  be written, \<open>generateReport\<close> runs on the resolution result, failed or not, and the
  job polls as completed with that result as the \<open>result\<close> of its report. The
  pipeline raises only when the research phase raises or the report cannot be written.
\<close>

theorem resolution_failure_is_reported_in_a_completed_report:
  "(env_research env (map req_name (rq_requirements (job_request j))) = Inr research \<and>
    env_report_put_ok env \<longrightarrow>
      getResolutionStatus (processResolution env j st) True (job_id j) =
        Completed (StoredReport
          (generateReport env (job_id j) (job_request j)
             (resolveDependencies (env_execute env) (job_request j) research)
             (job_startTime j))) \<and>
      rep_result
          (generateReport env (job_id j) (job_request j)
             (resolveDependencies (env_execute env) (job_request j) research)
             (job_startTime j)) =
        resolveDependencies (env_execute env) (job_request j) research) \<and>
   (env_execute env (rq_requirements (job_request j)) = Inl message \<longrightarrow>
      resolveDependencies (env_execute env) (job_request j) research = failed_result message \<and>
      \<not> success (failed_result message) \<and> res_error (failed_result message) = Some message) \<and>
   (env_execute env = tools_dependency_resolution toLowerCase lookup \<longrightarrow>
      env_execute env (rq_requirements (job_request j)) =
        Inr (dependencyResolutionTool toLowerCase lookup (rq_requirements (job_request j))) \<and>
      success (resolveDependencies (env_execute env) (job_request j) research) =
        success (dependencyResolutionTool toLowerCase lookup (rq_requirements (job_request j))) \<and>
      res_error (resolveDependencies (env_execute env) (job_request j) research) =
        res_error (dependencyResolutionTool toLowerCase lookup (rq_requirements (job_request j))) \<and>
      (\<not> success (dependencyResolutionTool toLowerCase lookup (rq_requirements (job_request j))) \<longrightarrow>
         res_error (dependencyResolutionTool toLowerCase lookup (rq_requirements (job_request j)))
           \<noteq> None)) \<and>
   (pipeline env j st = Inl message \<longrightarrow>
      env_research env (map req_name (rq_requirements (job_request j))) = Inl message \<or>
      \<not> env_report_put_ok env \<and> message = env_put_error env)"
proof -
  let ?result = "resolveDependencies (env_execute env) (job_request j) research"
  let ?tool = "dependencyResolutionTool toLowerCase lookup (rq_requirements (job_request j))"
  have written: "getResolutionStatus (processResolution env j st) True (job_id j) =
        Completed (StoredReport
          (generateReport env (job_id j) (job_request j) ?result (job_startTime j)))"
    if "env_research env (map req_name (rq_requirements (job_request j))) = Inr research"
      and "env_report_put_ok env"
    using that by (simp add: processResolution_def pipeline_cases status_of_report)
  have inside: "rep_result (generateReport env (job_id j) (job_request j) ?result (job_startTime j)) =
      ?result"
    by (rule report_result)
  have caught: "?result = failed_result message \<and>
      \<not> success (failed_result message) \<and> res_error (failed_result message) = Some message"
    if "env_execute env (rq_requirements (job_request j)) = Inl message"
    using that by (simp add: resolveDependencies_def failed_result_def)
  have own: "env_execute env (rq_requirements (job_request j)) = Inr ?tool \<and>
      success ?result = success ?tool \<and> res_error ?result = res_error ?tool \<and>
      (\<not> success ?tool \<longrightarrow> res_error ?tool \<noteq> None)"
    if tool: "env_execute env = tools_dependency_resolution toLowerCase lookup"
  proof -
    have "env_execute env (rq_requirements (job_request j)) = Inr ?tool"
      unfolding tool by (simp add: tools_dependency_resolution_def)
    moreover have "success ?result = success ?tool" "res_error ?result = res_error ?tool"
      unfolding tool by (rule resolve_with_the_tool)+
    moreover have "\<not> success ?tool \<longrightarrow> res_error ?tool \<noteq> None"
      using tool_error_when_unsuccessful [of toLowerCase lookup "rq_requirements (job_request j)"]
      by blast
    ultimately show ?thesis by blast
  qed
  have raised: "env_research env (map req_name (rq_requirements (job_request j))) = Inl message \<or>
      \<not> env_report_put_ok env \<and> message = env_put_error env"
    if "pipeline env j st = Inl message"
    using that by (auto simp add: pipeline_cases split: sum.splits if_splits)
  from written inside caught own raised show ?thesis by blast
qed

theorem resolution_failure_is_reported_in_a_completed_report_witness:
  "env_research raising_tool_env (map req_name (rq_requirements (job_request example_job))) =
     Inr example_research \<and>
   env_report_put_ok raising_tool_env \<and>
   env_execute raising_tool_env (rq_requirements (job_request example_job)) = Inl ''tool crashed'' \<and>
   getResolutionStatus (processResolution raising_tool_env example_job (store example_submitted))
       True ''job1'' =
     Completed (StoredReport
       (generateReport raising_tool_env ''job1'' example_request (failed_result ''tool crashed'') 0)) \<and>
   env_execute example_env = tools_dependency_resolution ascii_toLowerCase example_registry \<and>
   \<not> success (dependencyResolutionTool ascii_toLowerCase example_registry
        (rq_requirements (job_request example_job))) \<and>
   res_error (resolveDependencies (env_execute example_env) (job_request example_job)
       example_research) = Some ''No packages could be resolved'' \<and>
   pipeline unwritable_report_env example_job (store example_submitted) = Inl ''R2 unavailable'' \<and>
   \<not> env_report_put_ok unwritable_report_env"
proof -
  have hyps:
    "env_research raising_tool_env (map req_name (rq_requirements (job_request example_job))) =
       Inr example_research"
    "env_report_put_ok raising_tool_env"
    "env_execute raising_tool_env (rq_requirements (job_request example_job)) = Inl ''tool crashed''"
    by (simp_all add: raising_tool_env_def example_env_def)
  note t = resolution_failure_is_reported_in_a_completed_report
    [where env = raising_tool_env and j = example_job and research = example_research
       and message = "''tool crashed''" and st = "store example_submitted"]
  from t hyps have "resolveDependencies (env_execute raising_tool_env) (job_request example_job)
      example_research = failed_result ''tool crashed''"
    by blast
  moreover from t hyps have
    "getResolutionStatus (processResolution raising_tool_env example_job (store example_submitted))
       True (job_id example_job) =
     Completed (StoredReport
       (generateReport raising_tool_env (job_id example_job) (job_request example_job)
          (resolveDependencies (env_execute raising_tool_env) (job_request example_job)
             example_research)
          (job_startTime example_job)))"
    by blast
  ultimately have completed:
    "getResolutionStatus (processResolution raising_tool_env example_job (store example_submitted))
       True ''job1'' =
     Completed (StoredReport
       (generateReport raising_tool_env ''job1'' example_request (failed_result ''tool crashed'') 0))"
    by (simp add: example_job_def)
  have tool: "env_execute example_env = tools_dependency_resolution ascii_toLowerCase example_registry"
    by (simp add: example_env_def)
  have unsuccessful: "\<not> success (dependencyResolutionTool ascii_toLowerCase example_registry
        (rq_requirements (job_request example_job)))"
    "res_error (dependencyResolutionTool ascii_toLowerCase example_registry
        (rq_requirements (job_request example_job))) = Some ''No packages could be resolved''"
    by (simp_all add: example_job_def example_request_def tool_on_missing_package
        unresolved_result_def)
  from resolution_failure_is_reported_in_a_completed_report
    [where env = example_env and j = example_job and research = example_research
       and toLowerCase = ascii_toLowerCase and lookup = example_registry]
    tool
  have "res_error (resolveDependencies (env_execute example_env) (job_request example_job)
       example_research) =
     res_error (dependencyResolutionTool ascii_toLowerCase example_registry
        (rq_requirements (job_request example_job)))"
    by blast
  with unsuccessful(2) have kept: "res_error (resolveDependencies (env_execute example_env)
      (job_request example_job) example_research) = Some ''No packages could be resolved''"
    by simp
  have research: "env_research unwritable_report_env
      (map req_name (rq_requirements (job_request example_job))) \<noteq> Inl ''R2 unavailable''"
    by (simp add: unwritable_report_env_def example_env_def)
  from resolution_failure_is_reported_in_a_completed_report
    [where env = unwritable_report_env and j = example_job and message = "''R2 unavailable''"
       and st = "store example_submitted"]
    pipeline_outage(2) research
  have "\<not> env_report_put_ok unwritable_report_env"
    by blast
  with completed hyps tool unsuccessful(1) kept pipeline_outage(2) show ?thesis by blast
qed

subsection \<open>The life of a job\<close>

lemma generateReportKey_inject:
  "generateReportKey a = generateReportKey b \<longleftrightarrow> a = b"
  by (simp add: generateReportKey_def)

lemma processResolution_elsewhere:
  "k \<noteq> generateReportKey (job_id j) \<Longrightarrow> processResolution env j st k = st k"
  by (simp add: processResolution_def pipeline_cases storeError_def split: sum.splits)

lemma processResolution_here:
  "processResolution env j st (generateReportKey (job_id j)) = st (generateReportKey (job_id j)) \<or>
   (\<exists>report. processResolution env j st (generateReportKey (job_id j)) = Some (StoredReport report)) \<or>
   (\<exists>message. processResolution env j st (generateReportKey (job_id j)) =
      Some (ErrorReport (job_id j) message (env_now env)))"
  by (simp add: processResolution_def pipeline_cases storeError_def split: sum.splits)

lemma processResolution_dom:
  "dom (processResolution env j st) \<subseteq> insert (generateReportKey (job_id j)) (dom st)"
proof
  fix k
  assume "k \<in> dom (processResolution env j st)"
  show "k \<in> insert (generateReportKey (job_id j)) (dom st)"
  proof (cases "k = generateReportKey (job_id j)")
    case True
    then show ?thesis by simp
  next
    case False
    then have "processResolution env j st k = st k"
      by (rule processResolution_elsewhere)
    with \<open>k \<in> dom (processResolution env j st)\<close> have "k \<in> dom st"
      by (simp add: domIff)
    then show ?thesis by simp
  qed
qed

lemma submission_cases:
  "sub_launched (handleResolutionRequest body reportId now startTime put_ok st) = None \<or>
   (\<exists>request.
      sub_launched (handleResolutionRequest body reportId now startTime put_ok st) =
        Some \<lparr>job_id = reportId, job_request = request, job_startTime = startTime\<rparr> \<and>
      (sub_store (handleResolutionRequest body reportId now startTime put_ok st) = st \<or>
       sub_store (handleResolutionRequest body reportId now startTime put_ok st) =
         st(generateReportKey reportId \<mapsto> ProcessingStatus reportId now request)))"
  by (simp add: handleResolutionRequest_def split: option.splits)

lemma step_cases:
  assumes "step s s'"
  obtains (rejected) "s' = s"
  | (submitted) reportId request startTime now where
      "reportId \<notin> issued s"
      "pending s' = insert \<lparr>job_id = reportId, job_request = request, job_startTime = startTime\<rparr> (pending s)"
      "issued s' = insert reportId (issued s)"
      "store s' = store s \<or>
       store s' = (store s)(generateReportKey reportId \<mapsto> ProcessingStatus reportId now request)"
  | (ran) env j where
      "j \<in> pending s" "pending s' = pending s - {j}" "issued s' = issued s"
      "store s' = processResolution env j (store s)"
  using assms
proof (cases rule: step.cases)
  case (submit reportId body now startTime put_ok)
  from submission_cases [of body reportId now startTime put_ok "store s"]
  show ?thesis
  proof (elim disjE exE conjE)
    assume "sub_launched (handleResolutionRequest body reportId now startTime put_ok (store s)) = None"
    then have "s' = s"
      using submit by (simp add: after_submit_def)
    then show ?thesis by (rule rejected)
  next
    fix request
    assume launched: "sub_launched (handleResolutionRequest body reportId now startTime put_ok (store s)) =
        Some \<lparr>job_id = reportId, job_request = request, job_startTime = startTime\<rparr>"
      and unchanged: "sub_store (handleResolutionRequest body reportId now startTime put_ok (store s)) = store s"
    show ?thesis
      by (rule submitted [of reportId request startTime now])
        (simp_all add: submit after_submit_def launched unchanged)
  next
    fix request
    assume launched: "sub_launched (handleResolutionRequest body reportId now startTime put_ok (store s)) =
        Some \<lparr>job_id = reportId, job_request = request, job_startTime = startTime\<rparr>"
      and written: "sub_store (handleResolutionRequest body reportId now startTime put_ok (store s)) =
        (store s)(generateReportKey reportId \<mapsto> ProcessingStatus reportId now request)"
    show ?thesis
      by (rule submitted [of reportId request startTime now])
        (simp_all add: submit after_submit_def launched written)
  qed
next
  case (run j env)
  show ?thesis
    by (rule ran [of j env]) (simp_all add: run after_run_def)
qed

lemma step_preserves_invariant:
  assumes "step s s'" and "store_invariant s"
  shows "store_invariant s'"
  using assms(1)
proof (cases rule: step_cases)
  case rejected
  with assms(2) show ?thesis by simp
next
  case (submitted reportId request startTime now)
  have "r \<in> issued s'" if "generateReportKey r \<in> dom (store s')" for r
  proof (cases "r = reportId")
    case True
    with submitted(3) show ?thesis by simp
  next
    case False
    then have "store s' (generateReportKey r) = store s (generateReportKey r)"
      using submitted(4) by (auto simp add: generateReportKey_inject)
    with that have "generateReportKey r \<in> dom (store s)"
      by (simp add: domIff)
    with assms(2) submitted(3) show ?thesis
      by (simp add: store_invariant_def)
  qed
  then have keys: "\<forall>r. generateReportKey r \<in> dom (store s') \<longrightarrow> r \<in> issued s'"
    by blast
  have ids: "\<forall>j \<in> pending s'. job_id j \<in> issued s'"
    using submitted(2,3) assms(2) by (auto simp add: store_invariant_def)
  have unique: "\<forall>j \<in> pending s'. \<forall>j' \<in> pending s'. job_id j = job_id j' \<longrightarrow> j = j'"
    using submitted(1,2) assms(2) by (auto simp add: store_invariant_def)
  from keys ids unique show ?thesis
    unfolding store_invariant_def by blast
next
  case (ran env j)
  have "job_id j \<in> issued s"
    using ran(1) assms(2) by (simp add: store_invariant_def)
  have "r \<in> issued s'" if "generateReportKey r \<in> dom (store s')" for r
  proof (cases "r = job_id j")
    case True
    with \<open>job_id j \<in> issued s\<close> ran(3) show ?thesis by simp
  next
    case False
    from that ran(4) processResolution_dom [of env j "store s"]
    have "generateReportKey r \<in> insert (generateReportKey (job_id j)) (dom (store s))"
      by auto
    with False have "generateReportKey r \<in> dom (store s)"
      by (simp add: generateReportKey_inject)
    with assms(2) ran(3) show ?thesis
      by (simp add: store_invariant_def)
  qed
  then have keys: "\<forall>r. generateReportKey r \<in> dom (store s') \<longrightarrow> r \<in> issued s'"
    by blast
  have rest: "\<forall>j \<in> pending s'. job_id j \<in> issued s'"
    "\<forall>j \<in> pending s'. \<forall>j' \<in> pending s'. job_id j = job_id j' \<longrightarrow> j = j'"
    using ran(2,3) assms(2) by (auto simp add: store_invariant_def)
  from keys rest show ?thesis
    unfolding store_invariant_def by blast
qed

lemma steps_preserve_invariant:
  "step\<^sup>*\<^sup>* s s' \<Longrightarrow> store_invariant s \<Longrightarrow> store_invariant s'"
  by (induction rule: rtranclp_induct) (auto intro: step_preserves_invariant)

lemma reachable_invariant:
  "reachable s \<Longrightarrow> store_invariant s"
proof -
  assume "reachable s"
  then have "step\<^sup>*\<^sup>* initial_service s"
    by (simp add: reachable_def)
  moreover have "store_invariant initial_service"
    by (simp add: store_invariant_def initial_service_def)
  ultimately show "store_invariant s"
    by (rule steps_preserve_invariant)
qed

lemma step_preserves_settled:
  assumes "step s s'" and "settled s reportId"
  shows "settled s' reportId"
  using assms(1)
proof (cases rule: step_cases)
  case rejected
  with assms(2) show ?thesis by simp
next
  case (submitted fresh request startTime now)
  from assms(2) submitted(1) have "fresh \<noteq> reportId"
    by (auto simp add: settled_def)
  then have "store s' (generateReportKey reportId) = store s (generateReportKey reportId)"
    using submitted(4) by (auto simp add: generateReportKey_inject)
  with assms(2) submitted(3) show ?thesis
    by (simp add: settled_def)
next
  case (ran env j)
  from assms(2) obtain data where data: "store s (generateReportKey reportId) = Some data"
    "data_status data \<noteq> Some ''processing''" and issued: "reportId \<in> issued s"
    by (auto simp add: settled_def)
  have "\<exists>data'. store s' (generateReportKey reportId) = Some data' \<and>
      data_status data' \<noteq> Some ''processing''"
  proof (cases "job_id j = reportId")
    case True
    with processResolution_here [of env j "store s"] data ran(4) show ?thesis
      by auto
  next
    case False
    then have "store s' (generateReportKey reportId) = store s (generateReportKey reportId)"
      using ran(4) by (simp add: processResolution_elsewhere generateReportKey_inject)
    with data show ?thesis by simp
  qed
  with issued ran(3) show ?thesis
    by (simp add: settled_def)
qed

lemma steps_preserve_settled:
  "step\<^sup>*\<^sup>* s s' \<Longrightarrow> settled s reportId \<Longrightarrow> settled s' reportId"
  by (induction rule: rtranclp_induct) (auto intro: step_preserves_settled)

lemma terminal_poll_settled:
  assumes "store_invariant s" and "is_terminal (getResolutionStatus (store s) True reportId)"
  shows "settled s reportId"
proof -
  from assms(2) obtain data where data: "store s (generateReportKey reportId) = Some data"
    "data_status data \<noteq> Some ''processing''"
    by (auto simp add: getResolutionStatus_def is_terminal_def split: option.splits if_splits)
  then have "generateReportKey reportId \<in> dom (store s)" by auto
  with assms(1) have "reportId \<in> issued s"
    by (simp add: store_invariant_def)
  with data show ?thesis
    by (auto simp add: settled_def)
qed

lemma settled_poll:
  "settled s reportId \<Longrightarrow> \<not> is_processing (getResolutionStatus (store s) read_ok reportId)"
  by (auto simp add: settled_def getResolutionStatus_def is_processing_def split: option.splits)

lemma step_preserves_failure:
  assumes "step s s'" and "failure_recorded s reportId message created"
  shows "failure_recorded s' reportId message created"
  using assms(1)
proof (cases rule: step_cases)
  case rejected
  with assms(2) show ?thesis by simp
next
  case (submitted fresh request startTime now)
  from assms(2) submitted(1) have "fresh \<noteq> reportId"
    by (auto simp add: failure_recorded_def)
  then have "store s' (generateReportKey reportId) = store s (generateReportKey reportId)"
    using submitted(4) by (auto simp add: generateReportKey_inject)
  with assms(2) submitted(2,3) \<open>fresh \<noteq> reportId\<close> show ?thesis
    by (auto simp add: failure_recorded_def)
next
  case (ran env j)
  from assms(2) ran(1) have "job_id j \<noteq> reportId"
    by (auto simp add: failure_recorded_def)
  then have "store s' (generateReportKey reportId) = store s (generateReportKey reportId)"
    using ran(4) by (simp add: processResolution_elsewhere generateReportKey_inject)
  with assms(2) ran(2,3) show ?thesis
    by (auto simp add: failure_recorded_def)
qed

lemma steps_preserve_failure:
  "step\<^sup>*\<^sup>* s s' \<Longrightarrow> failure_recorded s reportId message created \<Longrightarrow>
   failure_recorded s' reportId message created"
  by (induction rule: rtranclp_induct) (auto intro: step_preserves_failure)

lemma failure_recorded_after_run:
  assumes "store_invariant s" and "j \<in> pending s"
    and "pipeline env j (store s) = Inl message" and "env_error_put_ok env"
  shows "failure_recorded (after_run s env j) (job_id j) message (env_now env)"
proof -
  have "job_id j \<in> issued s"
    using assms(1,2) by (simp add: store_invariant_def)
  moreover have "\<forall>j' \<in> pending s - {j}. job_id j' \<noteq> job_id j"
    using assms(1,2) by (auto simp add: store_invariant_def)
  moreover have "processResolution env j (store s) (generateReportKey (job_id j)) =
      Some (ErrorReport (job_id j) message (env_now env))"
    using assms(3,4) by (simp add: processResolution_def storeError_def)
  ultimately show ?thesis
    by (simp add: failure_recorded_def after_run_def)
qed

lemma failure_recorded_poll:
  "failure_recorded s reportId message created \<Longrightarrow> message \<noteq> [] \<Longrightarrow>
   getResolutionStatus (store s) True reportId = Failed reportId message created"
  by (simp add: failure_recorded_def getResolutionStatus_def)

lemma example_submitted_reachable:
  "reachable example_submitted"
proof -
  have "step initial_service example_submitted"
    unfolding example_submitted_def
    by (rule step.submit) (simp add: initial_service_def)
  then show ?thesis
    unfolding reachable_def by (rule r_into_rtranclp)
qed

text \<open>
  C7, as stated, fails in its second part: when the write of the report raises and the
  write of the error report raises too, \<open>storeError\<close> logs and swallows the second
  error; the pipeline has raised, no job is pending any more, and the poll still answers
  \<open>processing\<close>.
\<close>

theorem unwritten_failure_counterexample:
  "reachable example_submitted \<and> example_job \<in> pending example_submitted \<and>
   step example_submitted (after_run example_submitted outage_env example_job) \<and>
   pipeline outage_env example_job (store example_submitted) = Inl ''R2 unavailable'' \<and>
   pending (after_run example_submitted outage_env example_job) = {} \<and>
   getResolutionStatus (store (after_run example_submitted outage_env example_job)) True ''job1'' =
     Processing ''job1'' example_now (Some example_request)"
proof -
  have pending: "example_job \<in> pending example_submitted"
    by (simp add: example_submitted_eq)
  then have "step example_submitted (after_run example_submitted outage_env example_job)"
    by (rule step.run)
  moreover have "env_error_put_ok outage_env = False"
    by (simp add: outage_env_def example_env_def)
  then have "processResolution outage_env example_job (store example_submitted) =
      store example_submitted"
    unfolding processResolution_def pipeline_outage(1)
    by (simp add: storeError_def)
  then have "getResolutionStatus (store (after_run example_submitted outage_env example_job))
      True ''job1'' = Processing ''job1'' example_now (Some example_request)"
    by (simp add: after_run_def example_submitted_eq getResolutionStatus_def)
  moreover have "pending (after_run example_submitted outage_env example_job) = {}"
    by (simp add: after_run_def example_submitted_eq)
  ultimately show ?thesis
    using example_submitted_reachable pending pipeline_outage(1) by blast
qed

text \<open>
  C7, amended: in every reachable state of the service, once a status poll has answered
  completed or failed for an id, no later poll for that id answers processing. A job
  whose pipeline raised with a non-empty message, and whose error report was written,
  answers \<open>{status: failed, error}\<close> with that message on every later poll.
\<close>

theorem job_status_is_monotonic:
  assumes "reachable s"
  shows "(step\<^sup>*\<^sup>* s s' \<and> is_terminal (getResolutionStatus (store s) True reportId) \<longrightarrow>
            \<not> is_processing (getResolutionStatus (store s') read_ok reportId)) \<and>
         (j \<in> pending s \<and> pipeline env j (store s) = Inl message \<and> message \<noteq> [] \<and>
          env_error_put_ok env \<and> step\<^sup>*\<^sup>* (after_run s env j) s'' \<longrightarrow>
            getResolutionStatus (store s'') True (job_id j) =
              Failed (job_id j) message (env_now env))"
proof -
  from assms have invariant: "store_invariant s"
    by (rule reachable_invariant)
  have monotonic: "\<not> is_processing (getResolutionStatus (store s') read_ok reportId)"
    if "step\<^sup>*\<^sup>* s s'" and "is_terminal (getResolutionStatus (store s) True reportId)"
  proof -
    from invariant that(2) have "settled s reportId"
      by (rule terminal_poll_settled)
    with that(1) have "settled s' reportId"
      by (rule steps_preserve_settled)
    then show ?thesis by (rule settled_poll)
  qed
  have failed: "getResolutionStatus (store s'') True (job_id j) =
      Failed (job_id j) message (env_now env)"
    if "j \<in> pending s" and "pipeline env j (store s) = Inl message" and "message \<noteq> []"
      and "env_error_put_ok env" and "step\<^sup>*\<^sup>* (after_run s env j) s''"
  proof -
    from invariant that(1,2,4)
    have "failure_recorded (after_run s env j) (job_id j) message (env_now env)"
      by (rule failure_recorded_after_run)
    with that(5) have "failure_recorded s'' (job_id j) message (env_now env)"
      by (rule steps_preserve_failure)
    then show ?thesis
      using that(3) by (rule failure_recorded_poll)
  qed
  from monotonic failed show ?thesis by blast
qed

theorem job_status_is_monotonic_witness:
  "reachable example_submitted \<and> example_job \<in> pending example_submitted \<and>
   pipeline unwritable_report_env example_job (store example_submitted) = Inl ''R2 unavailable'' \<and>
   env_error_put_ok unwritable_report_env \<and>
   getResolutionStatus
       (store (after_run example_submitted unwritable_report_env example_job)) True ''job1'' =
     Failed ''job1'' ''R2 unavailable'' example_now \<and>
   reachable (after_run example_submitted unwritable_report_env example_job) \<and>
   is_terminal (getResolutionStatus
       (store (after_run example_submitted unwritable_report_env example_job)) True ''job1'') \<and>
   \<not> is_processing (getResolutionStatus
       (store (after_run example_submitted unwritable_report_env example_job)) False ''job1'')"
proof -
  let ?failed = "after_run example_submitted unwritable_report_env example_job"
  have pending: "example_job \<in> pending example_submitted"
    by (simp add: example_submitted_eq)
  have put: "env_error_put_ok unwritable_report_env"
    "env_now unwritable_report_env = example_now"
    by (simp_all add: unwritable_report_env_def example_env_def)
  have stay: "step\<^sup>*\<^sup>* ?failed ?failed"
    by simp
  with job_status_is_monotonic
    [OF example_submitted_reachable, where j = example_job and env = unwritable_report_env
       and message = "''R2 unavailable''" and s'' = ?failed]
    pending pipeline_outage(2) put(1)
  have "getResolutionStatus (store ?failed) True (job_id example_job) =
     Failed (job_id example_job) ''R2 unavailable'' (env_now unwritable_report_env)"
    by simp
  then have failed: "getResolutionStatus (store ?failed) True ''job1'' =
      Failed ''job1'' ''R2 unavailable'' example_now"
    by (simp add: example_job_def put(2))
  then have terminal: "is_terminal (getResolutionStatus (store ?failed) True ''job1'')"
    by (simp add: is_terminal_def)
  have "step example_submitted ?failed"
    using pending by (rule step.run)
  with example_submitted_reachable have reachable: "reachable ?failed"
    unfolding reachable_def by (rule rtranclp.rtrancl_into_rtrancl)
  from job_status_is_monotonic
    [OF reachable, where s' = ?failed and reportId = "''job1''" and read_ok = False]
    stay terminal
  have "\<not> is_processing (getResolutionStatus (store ?failed) False ''job1'')"
    by blast
  with failed terminal reachable show ?thesis
    using example_submitted_reachable pending pipeline_outage(2) put(1) by blast
qed

end
